theory Spec2Isabelle
  imports Complex_Main
begin

section \<open>JavaScript values\<close>

text \<open>
  Strings are lists of characters (code units of the Latin-1 range).  Numbers are
  abstracted from IEEE doubles to the exact rational they denote, with the three special
  values kept apart; rounding, overflow and the sign of zero are not modelled.
  An object is the list of its own properties in insertion order, with distinct keys;
  inherited properties are not modelled.
\<close>

datatype jsnum = NaN | PosInf | NegInf | Fin rat

datatype jsval =
    JUndefined
  | JNull
  | JBool bool
  | JNum jsnum
  | JStr string
  | JArr "jsval list"
  | JObj "(string \<times> jsval) list"

type_synonym obj = "(string \<times> jsval) list"

datatype error = NetworkError | TypeError | SyntaxError | Failure string

text \<open>Decimal rendering of an integer, as \<open>String(n)\<close> prints a safe integer.\<close>

function nat_to_dec :: "nat \<Rightarrow> string" where
  "nat_to_dec n =
     (if n < 10 then [''0123456789'' ! n]
      else nat_to_dec (n div 10) @ [''0123456789'' ! (n mod 10)])"
  by pat_completeness auto
termination
  by (relation "measure id") auto

declare nat_to_dec.simps [simp del]

definition int_to_dec :: "int \<Rightarrow> string" where
  "int_to_dec i = (if i < 0 then CHR ''-'' # nat_to_dec (nat (- i)) else nat_to_dec (nat i))"

text \<open>Truthiness, as \<open>if (v)\<close>, \<open>v || w\<close> and \<open>v ? a : b\<close> test it.\<close>

fun truthy :: "jsval \<Rightarrow> bool" where
  "truthy JUndefined = False"
| "truthy JNull = False"
| "truthy (JBool b) = b"
| "truthy (JNum n) = (n \<noteq> NaN \<and> n \<noteq> Fin 0)"
| "truthy (JStr s) = (s \<noteq> [])"
| "truthy (JArr _) = True"
| "truthy (JObj _) = True"

text \<open>
  Reading a property \<open>v.k\<close> for a key that is neither an index, \<open>length\<close> nor a method
  name: \<open>null\<close> and \<open>undefined\<close> throw, an object gives its own property, every
  other value gives \<open>undefined\<close>.
\<close>

definition obj_get :: "obj \<Rightarrow> string \<Rightarrow> jsval" where
  "obj_get kv k = (case map_of kv k of None \<Rightarrow> JUndefined | Some v \<Rightarrow> v)"

fun get_prop :: "jsval \<Rightarrow> string \<Rightarrow> error + jsval" where
  "get_prop JUndefined k = Inl TypeError"
| "get_prop JNull k = Inl TypeError"
| "get_prop (JObj kv) k = Inr (obj_get kv k)"
| "get_prop v k = Inr JUndefined"

text \<open>
  Writing a property, as \<open>{...d, k: v}\<close> does after the spread: an existing key keeps
  its place and takes the new value, a new key goes last.
\<close>

fun obj_set :: "obj \<Rightarrow> string \<Rightarrow> jsval \<Rightarrow> obj" where
  "obj_set [] k v = [(k, v)]"
| "obj_set ((k', v') # kv) k v = (if k' = k then (k, v) # kv else (k', v') # obj_set kv k v)"

text \<open>White space of the Latin-1 range, as \<open>trim\<close>, \<open>\s\<close> and \<open>parseFloat\<close> skip it.\<close>

definition is_space :: "char \<Rightarrow> bool" where
  "is_space c \<longleftrightarrow> (of_char c :: nat) \<in> {9, 10, 11, 12, 13, 32, 160}"

definition is_digit :: "char \<Rightarrow> bool" where
  "is_digit c \<longleftrightarrow> 48 \<le> (of_char c :: nat) \<and> (of_char c :: nat) \<le> 57"

definition trim :: "string \<Rightarrow> string" where
  "trim s = rev (dropWhile is_space (rev (dropWhile is_space s)))"

definition starts_with :: "string \<Rightarrow> string \<Rightarrow> bool" where
  "starts_with p s \<longleftrightarrow> take (length p) s = p"

text \<open>The first occurrence of a pattern: the text before it and the text after it.\<close>

fun find_sub :: "string \<Rightarrow> string \<Rightarrow> (string \<times> string) option" where
  "find_sub p [] = (if p = [] then Some ([], []) else None)"
| "find_sub p (c # cs) =
     (if starts_with p (c # cs) then Some ([], drop (length p) (c # cs))
      else case find_sub p cs of None \<Rightarrow> None | Some (a, b) \<Rightarrow> Some (c # a, b))"

definition includes_str :: "string \<Rightarrow> string \<Rightarrow> bool" where
  "includes_str s p \<longleftrightarrow> find_sub p s \<noteq> None"

text \<open>The value of a run of decimal digits.\<close>

definition digits_value :: "string \<Rightarrow> nat" where
  "digits_value ds = foldl (\<lambda>n c. 10 * n + ((of_char c :: nat) - 48)) 0 ds"

text \<open>
  \<open>parseFloat\<close> on a string: leading white space is skipped, then the longest prefix
  that is a decimal literal (sign, \<open>Infinity\<close> or digits with an optional fraction and
  an optional exponent) is read; without such a prefix the result is \<open>NaN\<close>.
\<close>

definition exponent_part :: "string \<Rightarrow> int" where
  "exponent_part s =
     (case s of
        [] \<Rightarrow> 0
      | c # r \<Rightarrow>
          if c = CHR ''e'' \<or> c = CHR ''E'' then
            (case r of
               [] \<Rightarrow> 0
             | d # r' \<Rightarrow>
                 if d = CHR ''+'' then
                   (if takeWhile is_digit r' = [] then 0
                    else int (digits_value (takeWhile is_digit r')))
                 else if d = CHR ''-'' then
                   (if takeWhile is_digit r' = [] then 0
                    else - int (digits_value (takeWhile is_digit r')))
                 else if takeWhile is_digit r = [] then 0
                 else int (digits_value (takeWhile is_digit r)))
          else 0)"

definition unsigned_literal :: "string \<Rightarrow> rat option" where
  "unsigned_literal u =
     (let ip = takeWhile is_digit u;
          r1 = dropWhile is_digit u;
          fp = (case r1 of [] \<Rightarrow> []
                | c # r \<Rightarrow> if c = CHR ''.'' then takeWhile is_digit r else []);
          r2 = (case r1 of [] \<Rightarrow> []
                | c # r \<Rightarrow> if c = CHR ''.'' then dropWhile is_digit r else r1)
      in if ip = [] \<and> fp = [] then None
         else
           (let m = of_nat (digits_value ip) + of_nat (digits_value fp) / 10 ^ length fp;
                x = exponent_part r2
            in Some (if 0 \<le> x then m * 10 ^ nat x else m / 10 ^ nat (- x))))"

definition parseFloat_str :: "string \<Rightarrow> jsnum" where
  "parseFloat_str s =
     (let t = dropWhile is_space s;
          neg = (case t of [] \<Rightarrow> False | c # _ \<Rightarrow> c = CHR ''-'');
          u = (case t of [] \<Rightarrow> []
               | c # r \<Rightarrow> if c = CHR ''+'' \<or> c = CHR ''-'' then r else t)
      in if starts_with ''Infinity'' u then (if neg then NegInf else PosInf)
         else case unsigned_literal u of
                None \<Rightarrow> NaN
              | Some q \<Rightarrow> Fin (if neg then - q else q))"

text \<open>
  \<open>parseFloat\<close> on any value reads its string form.  A number reads back as itself;
  \<open>undefined\<close>, \<open>null\<close>, booleans and objects print no numeric prefix; an array
  prints its elements joined by commas, and a comma ends every literal, so only the first
  element counts.
\<close>

fun parseFloat :: "jsval \<Rightarrow> jsnum" where
  "parseFloat (JNum n) = n"
| "parseFloat (JStr s) = parseFloat_str s"
| "parseFloat (JArr (x # xs)) = parseFloat x"
| "parseFloat v = NaN"

text \<open>\<open>Math.min\<close> and \<open>Math.max\<close> of two numbers.\<close>

fun math_min :: "jsnum \<Rightarrow> jsnum \<Rightarrow> jsnum" where
  "math_min NaN _ = NaN"
| "math_min _ NaN = NaN"
| "math_min NegInf _ = NegInf"
| "math_min _ NegInf = NegInf"
| "math_min PosInf b = b"
| "math_min a PosInf = a"
| "math_min (Fin a) (Fin b) = Fin (min a b)"

fun math_max :: "jsnum \<Rightarrow> jsnum \<Rightarrow> jsnum" where
  "math_max NaN _ = NaN"
| "math_max _ NaN = NaN"
| "math_max PosInf _ = PosInf"
| "math_max _ PosInf = PosInf"
| "math_max NegInf b = b"
| "math_max a NegInf = a"
| "math_max (Fin a) (Fin b) = Fin (max a b)"

section \<open>The appliance as an environment\<close>

text \<open>
  A thrown value (a rejected promise) is the left summand of a result.  The appliance is
  any deterministic server: its answer to a request may depend on every request sent
  before.  The environment also supplies what the platform computes and this repository
  does not define: \<open>md5\<close> (the hex digest of \<open>crypto.createHash\<close>), the bytes drawn
  by \<open>crypto.randomBytes\<close>, the readings of \<open>Date.now()\<close>, \<open>JSON.parse\<close> (\<open>None\<close>
  when it throws), the conversion of a string to a number, the printing of a finite
  number that is not a safe integer, \<open>'data=' + encodeURIComponent(JSON.stringify(v))\<close>, the printing of
  \<open>URLSearchParams\<close> and the base64 form of \<open>JSON.stringify({circuitid: id})\<close>.
\<close>

record request =
  req_url :: string
  req_method :: string
  req_headers :: "(string \<times> string) list"
  req_body :: "string option"

record response =
  status :: nat
  www_authenticate :: "string option"
  body_text :: string

record env =
  appliance :: "request list \<Rightarrow> request \<Rightarrow> error + response"
  md5 :: "string \<Rightarrow> string"
  randomHex :: "nat \<Rightarrow> string"
  clock :: "nat \<Rightarrow> int"
  jsonParse :: "string \<Rightarrow> jsval option"
  stringToNumber :: "string \<Rightarrow> jsnum"
  printNumber :: "rat \<Rightarrow> string"
  encodeData :: "jsval \<Rightarrow> string"
  urlSearchParams :: "(string \<times> string) list \<Rightarrow> string"
  base64Circuit :: "string \<Rightarrow> string"

record world =
  sent :: "request list"
  draws :: nat
  ticks :: nat
  token :: "string option"
  tokenAt :: int

definition fetch :: "env \<Rightarrow> request \<Rightarrow> world \<Rightarrow> (error + response) \<times> world" where
  "fetch e rq w = (appliance e (sent w) rq, w\<lparr>sent := sent w @ [rq]\<rparr>)"

definition response_ok :: "response \<Rightarrow> bool" where
  "response_ok r \<longleftrightarrow> 200 \<le> status r \<and> status r \<le> 299"

section \<open>Digest authentication\<close>

definition BASE :: string where "BASE = ''http://192.168.0.216''"
definition USER :: string where "USER = ''aiseg''"
definition PASS :: string where "PASS = ''0123456789''"

text \<open>The class \<open>\w\<close> of a regular expression without flags.\<close>

definition is_word_char :: "char \<Rightarrow> bool" where
  "is_word_char c \<longleftrightarrow>
     (let n = (of_char c :: nat) in
      (97 \<le> n \<and> n \<le> 122) \<or> (65 \<le> n \<and> n \<le> 90) \<or> (48 \<le> n \<and> n \<le> 57) \<or> n = 95)"

text \<open>
  One attempt of \<^verbatim>\<open>/(\w+)="([^"]+)"/\<close> at the start of a string: both groups are greedy
  runs that the next literal character ends, so no shorter run can match.  The result is
  the two groups and the text after the match.
\<close>

definition match_pair :: "string \<Rightarrow> (string \<times> string \<times> string) option" where
  \<open>match_pair s =
     (let k = takeWhile is_word_char s in
      if k = [] then None
      else case dropWhile is_word_char s of
        c1 # c2 # r2 \<Rightarrow>
          if c1 = CHR ''='' \<and> c2 = CHR 0x22 then
            (let v = takeWhile (\<lambda>c. c \<noteq> CHR 0x22) r2 in
             if v = [] then None
             else case dropWhile (\<lambda>c. c \<noteq> CHR 0x22) r2 of
               [] \<Rightarrow> None
             | _ # r4 \<Rightarrow> Some (k, v, r4))
          else None
      | _ \<Rightarrow> None)\<close>

lemma match_pair_shorter:
  assumes "match_pair s = Some (k, v, r)"
  shows "length r < length s"
proof -
  have a: "length (dropWhile P xs) \<le> length xs" for P and xs :: string
    by (simp add: length_dropWhile_le)
  from assms obtain c1 c2 c3 r2 where s: "dropWhile is_word_char s = c1 # c2 # r2"
    and r: "dropWhile (\<lambda>c. c \<noteq> CHR 0x22) r2 = c3 # r"
    by (auto simp: match_pair_def Let_def split: if_splits list.splits)
  have "length r < length (dropWhile (\<lambda>c. c \<noteq> CHR 0x22) r2)" by (simp add: r)
  also have "\<dots> \<le> length r2" by (rule a)
  also have "\<dots> < length (dropWhile is_word_char s)" by (simp add: s)
  also have "\<dots> \<le> length s" by (rule a)
  finally show ?thesis .
qed

text \<open>
  The global scan of \<open>header.replace(re, callback)\<close>: leftmost match first, the next
  attempt after the end of a match, one character further after a failed attempt.
\<close>

function scan_pairs :: "string \<Rightarrow> (string \<times> string) list" where
  "scan_pairs [] = []"
| "scan_pairs (c # cs) =
     (case match_pair (c # cs) of
        Some (k, v, r) \<Rightarrow> (k, v) # scan_pairs r
      | None \<Rightarrow> scan_pairs cs)"
  by pat_completeness auto
termination
  by (relation "measure length") (auto dest: match_pair_shorter)

text \<open>The callback assigns \<open>r[k] = v\<close>, so a repeated key keeps its last value.\<close>

definition parseWWWAuth :: "string \<Rightarrow> (string \<rightharpoonup> string)" where
  "parseWWWAuth header = fold (\<lambda>(k, v) r. r(k \<mapsto> v)) (scan_pairs header) Map.empty"

text \<open>
  The header that both transports build from a 401 answer \<open>r1\<close>, for the hash \<open>h\<close>,
  the request method and path, and the client nonce drawn for this request.  A challenge
  field is truthy exactly when it is present: the pattern admits no empty value.
\<close>

definition authorization_header ::
  "(string \<Rightarrow> string) \<Rightarrow> response \<Rightarrow> string \<Rightarrow> string \<Rightarrow> string \<Rightarrow> string" where
  \<open>authorization_header h r1 meth path cnonce =
     (let wwwAuth = (case www_authenticate r1 of None \<Rightarrow> [] | Some v \<Rightarrow> v);
          ch = parseWWWAuth wwwAuth;
          realm = (case ch ''realm'' of None \<Rightarrow> ''AiSEG'' | Some x \<Rightarrow> x);
          nonce = (case ch ''nonce'' of None \<Rightarrow> [] | Some x \<Rightarrow> x);
          opaque = ch ''opaque'';
          qop = ch ''qop'';
          nc = ''00000001'';
          ha1 = h (USER @ '':'' @ realm @ '':'' @ PASS);
          ha2 = h (meth @ '':'' @ path);
          resp = (if qop = Some ''auth''
                  then h (ha1 @ '':'' @ nonce @ '':'' @ nc @ '':'' @ cnonce @ '':auth:'' @ ha2)
                  else h (ha1 @ '':'' @ nonce @ '':'' @ ha2));
          auth0 = ''Digest username="'' @ USER @ ''", realm="'' @ realm
                  @ ''", nonce="'' @ nonce @ ''", uri="'' @ path
                  @ ''", response="'' @ resp @ ''"'';
          auth1 = (case qop of None \<Rightarrow> auth0
                   | Some _ \<Rightarrow> auth0 @ '', qop=auth, nc='' @ nc @ '', cnonce="''
                                @ cnonce @ ''"'')
      in case opaque of None \<Rightarrow> auth1
         | Some op \<Rightarrow> auth1 @ '', opaque="'' @ op @ ''"'')\<close>

text \<open>
  \<open>digestFetch(path, method, body)\<close>; \<open>body = None\<close> is JavaScript's \<open>null\<close>.
\<close>

definition digestFetch ::
  "env \<Rightarrow> string \<Rightarrow> string \<Rightarrow> string option \<Rightarrow> world \<Rightarrow> (error + response) \<times> world" where
  "digestFetch e path meth body w =
     (let url = BASE @ path;
          baseHeaders = (if body \<noteq> None
                         then [(''Content-Type'', ''application/x-www-form-urlencoded'')] else []);
          baseBody = body
      in case fetch e \<lparr>req_url = url, req_method = meth, req_headers = baseHeaders,
                       req_body = baseBody\<rparr> w of
           (Inl err, w1) \<Rightarrow> (Inl err, w1)
         | (Inr r1, w1) \<Rightarrow>
             if status r1 \<noteq> 401 then (Inr r1, w1)
             else
               (let cnonce = randomHex e (draws w1);
                    w2 = w1\<lparr>draws := Suc (draws w1)\<rparr>;
                    auth = authorization_header (md5 e) r1 meth path cnonce
                in fetch e \<lparr>req_url = url, req_method = meth,
                             req_headers = baseHeaders @ [(''Authorization'', auth)],
                             req_body = baseBody\<rparr> w2))"

text \<open>
  \<open>devicePost(path, params)\<close>, with the same steps for the method \<open>POST\<close>; the body
  \<^verbatim>\<open>'data=' + encodeURIComponent(JSON.stringify(params))\<close> is passed in already encoded.
\<close>

definition devicePost :: "env \<Rightarrow> string \<Rightarrow> string \<Rightarrow> world \<Rightarrow> (error + response) \<times> world" where
  "devicePost e path body w =
     (let url = BASE @ path;
          hdrs = [(''Content-Type'', ''application/x-www-form-urlencoded''),
                  (''X-Requested-With'', ''XMLHttpRequest'')]
      in case fetch e \<lparr>req_url = url, req_method = ''POST'', req_headers = hdrs,
                       req_body = Some body\<rparr> w of
           (Inl err, w1) \<Rightarrow> (Inl err, w1)
         | (Inr r1, w1) \<Rightarrow>
             if status r1 \<noteq> 401 then (Inr r1, w1)
             else
               (let cnonce = randomHex e (draws w1);
                    w2 = w1\<lparr>draws := Suc (draws w1)\<rparr>;
                    auth = authorization_header (md5 e) r1 ''POST'' path cnonce
                in fetch e \<lparr>req_url = url, req_method = ''POST'',
                             req_headers = hdrs @ [(''Authorization'', auth)],
                             req_body = Some body\<rparr> w2))"

text \<open>
  The reference computation of the digest, written from RFC 2617 as the specification
  words it: the challenge fields with their defaults, \<open>HA1\<close>, \<open>HA2\<close>, the response digest
  and the \<open>Authorization\<close> header that carries them.
\<close>

definition challenge :: "response \<Rightarrow> (string \<rightharpoonup> string)" where
  "challenge r = parseWWWAuth (case www_authenticate r of None \<Rightarrow> [] | Some h \<Rightarrow> h)"

definition challenge_realm :: "response \<Rightarrow> string" where
  "challenge_realm r = (case challenge r ''realm'' of None \<Rightarrow> ''AiSEG'' | Some x \<Rightarrow> x)"

definition challenge_nonce :: "response \<Rightarrow> string" where
  "challenge_nonce r = (case challenge r ''nonce'' of None \<Rightarrow> [] | Some x \<Rightarrow> x)"

definition spec_HA1 :: "(string \<Rightarrow> string) \<Rightarrow> string \<Rightarrow> string" where
  "spec_HA1 h realm = h (''aiseg:'' @ realm @ '':0123456789'')"

definition spec_HA2 :: "(string \<Rightarrow> string) \<Rightarrow> string \<Rightarrow> string \<Rightarrow> string" where
  "spec_HA2 h method uri = h (method @ '':'' @ uri)"

definition spec_response ::
  "(string \<Rightarrow> string) \<Rightarrow> response \<Rightarrow> string \<Rightarrow> string \<Rightarrow> string \<Rightarrow> string" where
  "spec_response h r method uri cnonce =
     (if challenge r ''qop'' = Some ''auth''
      then h (spec_HA1 h (challenge_realm r) @ '':'' @ challenge_nonce r @ '':00000001:''
              @ cnonce @ '':auth:'' @ spec_HA2 h method uri)
      else h (spec_HA1 h (challenge_realm r) @ '':'' @ challenge_nonce r @ '':''
              @ spec_HA2 h method uri))"

definition spec_authorization ::
  "(string \<Rightarrow> string) \<Rightarrow> response \<Rightarrow> string \<Rightarrow> string \<Rightarrow> string \<Rightarrow> string" where
  \<open>spec_authorization h r method uri cnonce =
     ''Digest username="aiseg", realm="'' @ challenge_realm r
     @ ''", nonce="'' @ challenge_nonce r
     @ ''", uri="'' @ uri
     @ ''", response="'' @ spec_response h r method uri cnonce @ ''"''
     @ (case challenge r ''qop'' of None \<Rightarrow> []
        | Some _ \<Rightarrow> '', qop=auth, nc=00000001, cnonce="'' @ cnonce @ ''"'')
     @ (case challenge r ''opaque'' of None \<Rightarrow> []
        | Some op \<Rightarrow> '', opaque="'' @ op @ ''"'')\<close>

definition first_request :: "string \<Rightarrow> string \<Rightarrow> string option \<Rightarrow> request" where
  "first_request path method body =
     \<lparr>req_url = ''http://192.168.0.216'' @ path, req_method = method,
      req_headers = (case body of None \<Rightarrow> []
                     | Some _ \<Rightarrow> [(''Content-Type'', ''application/x-www-form-urlencoded'')]),
      req_body = body\<rparr>"

definition with_authorization :: "request \<Rightarrow> string \<Rightarrow> request" where
  "with_authorization rq auth = rq\<lparr>req_headers := req_headers rq @ [(''Authorization'', auth)]\<rparr>"

definition device_request :: "string \<Rightarrow> string \<Rightarrow> request" where
  "device_request path body =
     \<lparr>req_url = ''http://192.168.0.216'' @ path, req_method = ''POST'',
      req_headers = [(''Content-Type'', ''application/x-www-form-urlencoded''),
                     (''X-Requested-With'', ''XMLHttpRequest'')],
      req_body = Some body\<rparr>"

text \<open>
  A sample appliance that answers every request with the same challenge.  The sample hash
  shows its argument instead of digesting it, and the sample encoding of a circuit id is
  the id itself; the remaining platform functions are never called on the samples of this
  theory, except where a sample environment replaces them.
\<close>

definition challenge_401 :: response where
  \<open>challenge_401 = \<lparr>status = 401,
      www_authenticate = Some ''Digest realm="Home", nonce="abc", qop="auth"'',
      body_text = []\<rparr>\<close>

definition env_always_401 :: env where
  \<open>env_always_401 =
     \<lparr>appliance = (\<lambda>h rq. Inr challenge_401),
      md5 = (\<lambda>s. ''md5('' @ s @ '')''),
      randomHex = (\<lambda>k. ''0a1b2c3d4e5f6071''),
      clock = (\<lambda>k. 0),
      jsonParse = (\<lambda>s. None),
      stringToNumber = (\<lambda>s. NaN),
      printNumber = (\<lambda>q. []),
      encodeData = (\<lambda>v. ''data=''),
      urlSearchParams = (\<lambda>kv. []),
      base64Circuit = (\<lambda>s. s)\<rparr>\<close>

definition world0 :: world where
  "world0 = \<lparr>sent = [], draws = 0, ticks = 0, token = None, tokenAt = 0\<rparr>"

section \<open>Printing values\<close>

text \<open>
  \<open>String(v)\<close> and \<open>`${v}`\<close>.  A safe integer (at most \<open>2^53\<close> in magnitude) prints
  its decimal digits; any other finite number, whose shortest digits the platform chooses,
  is printed by the platform.  An array prints its elements joined by commas, with
  \<open>null\<close> and \<open>undefined\<close> printed empty.
\<close>

definition number_to_string :: "env \<Rightarrow> jsnum \<Rightarrow> string" where
  "number_to_string e n =
     (case n of
        NaN \<Rightarrow> ''NaN''
      | PosInf \<Rightarrow> ''Infinity''
      | NegInf \<Rightarrow> ''-Infinity''
      | Fin q \<Rightarrow>
          if q = of_int \<lfloor>q\<rfloor> \<and> \<bar>q\<bar> \<le> 9007199254740992 then int_to_dec \<lfloor>q\<rfloor>
          else printNumber e q)"

fun join_commas :: "string list \<Rightarrow> string" where
  "join_commas [] = []"
| "join_commas [s] = s"
| "join_commas (s # t # ss) = s @ '','' @ join_commas (t # ss)"

fun js_String :: "env \<Rightarrow> jsval \<Rightarrow> string" where
  "js_String e JUndefined = ''undefined''"
| "js_String e JNull = ''null''"
| "js_String e (JBool b) = (if b then ''true'' else ''false'')"
| "js_String e (JNum n) = number_to_string e n"
| "js_String e (JStr s) = s"
| "js_String e (JArr xs) =
     join_commas (map (\<lambda>x. if x = JNull \<or> x = JUndefined then [] else js_String e x) xs)"
| "js_String e (JObj kv) = ''[object Object]''"

text \<open>
  \<open>Number(v)\<close>, as \<open>Math.min\<close>, \<open>Math.max\<close> and \<open>>\<close> convert an operand.
\<close>

definition js_Number :: "env \<Rightarrow> jsval \<Rightarrow> jsnum" where
  "js_Number e v =
     (case v of
        JUndefined \<Rightarrow> NaN
      | JNull \<Rightarrow> Fin 0
      | JBool b \<Rightarrow> Fin (if b then 1 else 0)
      | JNum n \<Rightarrow> n
      | _ \<Rightarrow> stringToNumber e (js_String e v))"

text \<open>
  Printing an object calls its \<open>toString\<close>.  An object parsed from JSON that has an own
  property of that name has no callable one, and printing it, alone or inside an array,
  throws; \<open>js_String\<close> above is the text of a value that prints.
\<close>

fun printable :: "jsval \<Rightarrow> bool" where
  "printable (JObj kv) = (''toString'' \<notin> set (map fst kv))"
| "printable (JArr xs) = (\<forall>x \<in> set xs. printable x)"
| "printable v = True"

definition to_String :: "env \<Rightarrow> jsval \<Rightarrow> error + string" where
  "to_String e v = (if printable v then Inr (js_String e v) else Inl TypeError)"

section \<open>HTML helpers\<close>

text \<open>
  \<^verbatim>\<open>html.match(/<span[^>]+id="val_kwh"[^>]*>([\d.,]+)<\/span>/)\<close>, one attempt at the
  start of a string.  Neither class \<open>[^>]\<close> can pass a \<open>>\<close>, so both lie in the run of
  characters between \<open><span\<close> and the next \<open>>\<close>: the attempt succeeds exactly when
  that run holds the \<open>id\<close> attribute after at least one character, a \<open>>\<close> ends the
  run, and a non-empty run of digits, dots and commas follows, closed by the end tag.
  The result is the captured group.
\<close>

definition is_kwh_char :: "char \<Rightarrow> bool" where
  "is_kwh_char c \<longleftrightarrow> is_digit c \<or> c = CHR ''.'' \<or> c = CHR '',''"

definition match_kwh_span :: "string \<Rightarrow> string option" where
  \<open>match_kwh_span s =
     (if starts_with ''<span'' s then
        (let rest = drop 5 s;
             run = takeWhile (\<lambda>c. c \<noteq> CHR ''>'') rest
         in if run \<noteq> [] \<and> includes_str (tl run) ''id="val_kwh"'' then
              (case dropWhile (\<lambda>c. c \<noteq> CHR ''>'') rest of
                 [] \<Rightarrow> None
               | _ # t \<Rightarrow>
                   if takeWhile is_kwh_char t \<noteq> []
                      \<and> starts_with ''</span>'' (dropWhile is_kwh_char t)
                   then Some (takeWhile is_kwh_char t) else None)
            else None)
      else None)\<close>

text \<open>The leftmost match of the pattern in \<open>html\<close>.\<close>

fun match_kwh :: "string \<Rightarrow> string option" where
  "match_kwh [] = None"
| "match_kwh (c # cs) =
     (case match_kwh_span (c # cs) of Some g \<Rightarrow> Some g | None \<Rightarrow> match_kwh cs)"

text \<open>\<open>s.replace(',', '')\<close> with a string pattern: the first comma only.\<close>

fun replace_first_comma :: "string \<Rightarrow> string" where
  "replace_first_comma [] = []"
| "replace_first_comma (c # cs) = (if c = CHR '','' then cs else c # replace_first_comma cs)"

text \<open>\<^verbatim>\<open>return m ? parseFloat(m[1].replace(',', '')) : null;\<close>\<close>

definition parseKwh :: "string \<Rightarrow> jsval" where
  "parseKwh html =
     (case match_kwh html of
        Some g \<Rightarrow> JNum (parseFloat_str (replace_first_comma g))
      | None \<Rightarrow> JNull)"

section \<open>Daily totals\<close>

text \<open>
  \<open>getTotals()\<close>.  The four scrapes run concurrently, each through its own
  \<open>digestFetch\<close>; \<open>page path\<close> is what that call settles to for the given path, a
  response or a rejection.  A rejection anywhere in a chain is caught and gives \<open>null\<close>.
\<close>

definition totals_pages :: "(string \<times> int) list" where
  "totals_pages =
     [(''solar'', 51111), (''consumption'', 52111), (''purchase'', 53111), (''sold'', 54111)]"

definition scrape_total :: "(string \<Rightarrow> error + response) \<Rightarrow> int \<Rightarrow> jsval" where
  "scrape_total page ident =
     (case page (''/page/graph/'' @ int_to_dec ident) of
        Inl err \<Rightarrow> JNull
      | Inr r \<Rightarrow> parseKwh (body_text r))"

definition getTotals :: "(string \<Rightarrow> error + response) \<Rightarrow> obj" where
  "getTotals page =
     (let entries = totals_pages;
          results = map (\<lambda>(key, ident). scrape_total page ident) entries
      in map (\<lambda>(i, (key, ident)). (key, results ! i)) (enumerate 0 entries))"

text \<open>Four sample pages: two values, a page without the span, and a rejected fetch.\<close>

definition sample_pages :: "string \<Rightarrow> error + response" where
  \<open>sample_pages path =
     (if path = ''/page/graph/51111'' then
        Inr \<lparr>status = 200, www_authenticate = None,
             body_text = ''<span id="val_kwh">1,234,567.89</span>''\<rparr>
      else if path = ''/page/graph/52111'' then
        Inr \<lparr>status = 200, www_authenticate = None,
             body_text = ''<div><span class="num" id="val_kwh">1,234.56</span></div>''\<rparr>
      else if path = ''/page/graph/53111'' then
        Inr \<lparr>status = 200, www_authenticate = None, body_text = ''<p>busy</p>''\<rparr>
      else Inl NetworkError)\<close>

section \<open>The appliance client\<close>

subsection \<open>Realtime snapshot\<close>

text \<open>
  The object that \<open>getRealtime\<close> builds from the parsed answer \<open>d\<close>.  Reading a
  property of \<open>null\<close> throws; \<open>x || 0\<close> keeps a truthy number; \<open>x ?? 0\<close> replaces
  only \<open>null\<close> and \<open>undefined\<close>; \<open>x === 1\<close> holds for the number 1 alone.
\<close>

definition or_zero :: "jsnum \<Rightarrow> jsval" where
  "or_zero n = (if truthy (JNum n) then JNum n else JNum (Fin 0))"

definition nullish_zero :: "jsval \<Rightarrow> jsval" where
  "nullish_zero v = (if v = JNull \<or> v = JUndefined then JNum (Fin 0) else v)"

definition is_one :: "jsval \<Rightarrow> jsval" where
  "is_one v = JBool (v = JNum (Fin 1))"

fun num_gt :: "jsnum \<Rightarrow> jsnum \<Rightarrow> bool" where
  "num_gt NaN _ = False"
| "num_gt _ NaN = False"
| "num_gt PosInf b = (b \<noteq> PosInf)"
| "num_gt NegInf _ = False"
| "num_gt (Fin a) PosInf = False"
| "num_gt (Fin a) NegInf = True"
| "num_gt (Fin a) (Fin b) = (b < a)"

definition field :: "jsval \<Rightarrow> string \<Rightarrow> jsval" where
  "field d k = (case get_prop d k of Inl _ \<Rightarrow> JUndefined | Inr v \<Rightarrow> v)"

definition top_entry :: "jsval \<Rightarrow> string \<Rightarrow> string \<Rightarrow> string \<Rightarrow> jsval" where
  "top_entry d title capacity best =
     JObj [(''name'', field d title), (''watts'', field d capacity),
           (''visible'', is_one (field d best))]"

definition realtime_snapshot :: "env \<Rightarrow> jsval \<Rightarrow> error + jsval" where
  "realtime_snapshot e d =
     (if d = JNull \<or> d = JUndefined then Inl TypeError
      else Inr (JObj
        [(''gen_kw'', or_zero (parseFloat (field d ''g_capacity''))),
         (''use_kw'', or_zero (parseFloat (field d ''u_capacity''))),
         (''solar_w'', nullish_zero (field d ''g_d_1_capacity'')),
         (''enefarm_w'', nullish_zero (field d ''g_d_2_capacity'')),
         (''selling'', is_one (field d ''lo_buy_sell'')),
         (''top'', JArr (filter (\<lambda>c. field c ''visible'' = JBool True)
            [top_entry d ''u_d_1_title'' ''u_d_1_capacity'' ''best1'',
             top_entry d ''u_d_2_title'' ''u_d_2_capacity'' ''best2'',
             top_entry d ''u_d_3_title'' ''u_d_3_capacity'' ''best3''])),
         (''ev_connected'', is_one (field d ''connEv'')),
         (''battery_pct'', if truthy (field d ''connSb'') then field d ''percent'' else JNull),
         (''fc_connected'', JBool (num_gt (js_Number e (field d ''connFc'')) (Fin 0))),
         (''raw'', d)]))"

definition getRealtime :: "env \<Rightarrow> world \<Rightarrow> (error + jsval) \<times> world" where
  "getRealtime e w =
     (case digestFetch e ''/data/electricflow/111/update'' ''POST'' (Some []) w of
        (Inl err, w') \<Rightarrow> (Inl err, w')
      | (Inr r, w') \<Rightarrow>
          if \<not> response_ok r
          then (Inl (Failure (''AiSEG2 HTTP '' @ int_to_dec (int (status r)))), w')
          else case jsonParse e (body_text r) of
                 None \<Rightarrow> (Inl SyntaxError, w')
               | Some d \<Rightarrow> (realtime_snapshot e d, w'))"

subsection \<open>Circuit list\<close>

text \<open>A circuit as the list holds it: \<open>{id, name}\<close>.\<close>

record circuit =
  circuit_id :: string
  circuit_name :: jsval


text \<open>
  \<^verbatim>\<open>html.matchAll(/<script[^>]*>([\s\S]*?)<\/script>/g)\<close>: one attempt at the start of a
  string gives the content of the block and the text after its end tag.  The attribute
  class stops at the first \<open>>\<close>, the lazy content at the first end tag.
\<close>

definition match_script :: "string \<Rightarrow> (string \<times> string) option" where
  "match_script s =
     (if starts_with ''<script'' s then
        (case dropWhile (\<lambda>c. c \<noteq> CHR ''>'') (drop 7 s) of
           [] \<Rightarrow> None
         | _ # t \<Rightarrow> find_sub ''</script>'' t)
      else None)"

lemma find_sub_shorter: "find_sub p s = Some (a, b) \<Longrightarrow> length b \<le> length s"
  by (induction s arbitrary: a b) (auto split: if_splits option.splits)

lemma match_script_shorter:
  assumes "match_script s = Some (a, b)"
  shows "length b < length s"
proof -
  from assms obtain c t where t: "dropWhile (\<lambda>c. c \<noteq> CHR ''>'') (drop 7 s) = c # t"
    and f: "find_sub ''</script>'' t = Some (a, b)"
    by (auto simp: match_script_def split: if_splits list.splits)
  have "length b \<le> length t" using f by (rule find_sub_shorter)
  also have "\<dots> < length (dropWhile (\<lambda>c. c \<noteq> CHR ''>'') (drop 7 s))" by (simp add: t)
  also have "\<dots> \<le> length (drop 7 s)" by (rule length_dropWhile_le)
  also have "\<dots> \<le> length s" by simp
  finally show ?thesis .
qed

function scripts_of :: "string \<Rightarrow> string list" where
  "scripts_of [] = []"
| "scripts_of (c # cs) =
     (case match_script (c # cs) of
        Some (content, rest) \<Rightarrow> content # scripts_of rest
      | None \<Rightarrow> scripts_of cs)"
  by pat_completeness auto
termination
  by (relation "measure length") (auto dest: match_script_shorter)

text \<open>\<open>s.indexOf(c)\<close>, \<open>s.lastIndexOf(c)\<close> and \<open>s.slice(a, b)\<close> for \<open>0 \<le> a\<close>.\<close>

definition indexOf :: "string \<Rightarrow> char \<Rightarrow> int" where
  "indexOf s c = (if c \<in> set s then int (length (takeWhile (\<lambda>x. x \<noteq> c) s)) else - 1)"

definition lastIndexOf :: "string \<Rightarrow> char \<Rightarrow> int" where
  "lastIndexOf s c =
     (if c \<in> set s then int (length s) - 1 - int (length (takeWhile (\<lambda>x. x \<noteq> c) (rev s)))
      else - 1)"

definition slice :: "string \<Rightarrow> int \<Rightarrow> int \<Rightarrow> string" where
  "slice s a b = take (nat b - nat a) (drop (nat a) s)"

text \<open>
  The expression returned inside the \<open>try\<close>:
  \<^verbatim>\<open>(data.arrayCircuitNameList || []).filter(c => c.strBtnType === '1').map(...)\<close>.
  It throws when \<open>data\<close> is \<open>null\<close>, when the list is truthy and no array, when an
  element is \<open>null\<close>, and when \<open>String(c.strId)\<close> throws for an element that is kept.
\<close>

definition circuit_record :: "env \<Rightarrow> jsval \<Rightarrow> circuit" where
  "circuit_record e c =
     \<lparr>circuit_id = js_String e (field c ''strId''),
      circuit_name = (if truthy (field c ''strCircuit'') then field c ''strCircuit''
                      else JStr (''Circuit '' @ js_String e (field c ''strId'')))\<rparr>"

definition circuit_of :: "env \<Rightarrow> jsval \<Rightarrow> error + circuit" where
  "circuit_of e c =
     (case to_String e (field c ''strId'') of
        Inl err \<Rightarrow> Inl err
      | Inr ident \<Rightarrow> Inr (circuit_record e c))"

fun filter_enabled :: "jsval list \<Rightarrow> error + jsval list" where
  "filter_enabled [] = Inr []"
| "filter_enabled (c # cs) =
     (case get_prop c ''strBtnType'' of
        Inl err \<Rightarrow> Inl err
      | Inr b \<Rightarrow>
          (case filter_enabled cs of
             Inl err \<Rightarrow> Inl err
           | Inr ks \<Rightarrow> Inr (if b = JStr ''1'' then c # ks else ks)))"

fun map_circuits :: "env \<Rightarrow> jsval list \<Rightarrow> error + circuit list" where
  "map_circuits e [] = Inr []"
| "map_circuits e (c # cs) =
     (case circuit_of e c of
        Inl err \<Rightarrow> Inl err
      | Inr x \<Rightarrow>
          (case map_circuits e cs of
             Inl err \<Rightarrow> Inl err
           | Inr xs \<Rightarrow> Inr (x # xs)))"

definition circuits_of :: "env \<Rightarrow> jsval \<Rightarrow> error + circuit list" where
  "circuits_of e data =
     (case get_prop data ''arrayCircuitNameList'' of
        Inl err \<Rightarrow> Inl err
      | Inr v \<Rightarrow>
          (case (if truthy v then v else JArr []) of
             JArr xs \<Rightarrow>
               (case filter_enabled xs of
                  Inl err \<Rightarrow> Inl err
                | Inr ks \<Rightarrow> map_circuits e ks)
           | _ \<Rightarrow> Inl TypeError))"

text \<open>The loop over the script blocks; every \<open>continue\<close> and the \<open>catch\<close> go on with the rest.\<close>

fun circuits_loop :: "env \<Rightarrow> string list \<Rightarrow> circuit list" where
  "circuits_loop e [] = []"
| "circuits_loop e (s # rest) =
     (if \<not> includes_str s ''arrayCircuitNameList'' then circuits_loop e rest
      else
        (let l = indexOf s CHR ''('';
             rpos = lastIndexOf s CHR '')''
         in if l < 0 \<or> rpos \<le> l then circuits_loop e rest
            else case jsonParse e (trim (slice s (l + 1) rpos)) of
                   None \<Rightarrow> circuits_loop e rest
                 | Some data \<Rightarrow>
                     (case circuits_of e data of
                        Inl err \<Rightarrow> circuits_loop e rest
                      | Inr cs \<Rightarrow> cs)))"

definition parse_circuits :: "env \<Rightarrow> string \<Rightarrow> circuit list" where
  "parse_circuits e html = circuits_loop e (scripts_of html)"

definition getCircuits :: "env \<Rightarrow> world \<Rightarrow> (error + circuit list) \<times> world" where
  "getCircuits e w =
     (case digestFetch e ''/page/setting/installation/734'' ''GET'' None w of
        (Inl err, w') \<Rightarrow> (Inl err, w')
      | (Inr r, w') \<Rightarrow> (Inr (parse_circuits e (body_text r)), w'))"

subsection \<open>Per-circuit kWh\<close>

text \<open>
  \<open>getCircuitKwh(id)\<close>; as for the totals, \<open>page path\<close> is what \<open>digestFetch(path)\<close>
  settles to.
\<close>

definition getCircuitKwh :: "env \<Rightarrow> (string \<Rightarrow> error + response) \<Rightarrow> string \<Rightarrow> error + jsval" where
  "getCircuitKwh e page ident =
     (case page (''/page/graph/584?data='' @ base64Circuit e ident) of
        Inl err \<Rightarrow> Inl err
      | Inr r \<Rightarrow> Inr (parseKwh (body_text r)))"

text \<open>
  \<open>getAllCircuitKwh(circuits)\<close>.  Each turn of the loop starts one \<open>getCircuitKwh\<close>
  per circuit of the batch and waits for all of them.  A call has at most one request to
  the appliance in flight at a time (the first, then the authenticated retry), so the trace
  records one start when a call is issued and one end when it has settled; \<open>order\<close>
  gives the order in which the calls of a batch settle.  The index \<open>i + j\<close> always lies
  inside \<open>results\<close>.
\<close>

datatype event = Start string | Settled string

definition CONCURRENCY :: nat where "CONCURRENCY = 10"

definition kwh_or_null :: "env \<Rightarrow> (string \<Rightarrow> error + response) \<Rightarrow> circuit \<Rightarrow> jsval" where
  "kwh_or_null e page c =
     (case getCircuitKwh e page (circuit_id c) of Inl err \<Rightarrow> JNull | Inr v \<Rightarrow> v)"

function kwh_loop ::
  "env \<Rightarrow> (string \<Rightarrow> error + response) \<Rightarrow> (circuit list \<Rightarrow> circuit list) \<Rightarrow> circuit list
   \<Rightarrow> nat \<Rightarrow> jsval list \<Rightarrow> event list \<Rightarrow> jsval list \<times> event list" where
  "kwh_loop e page order cs i results trace =
     (if i < length cs then
        (let batch = take CONCURRENCY (drop i cs);
             batchResults = map (kwh_or_null e page) batch;
             results' = fold (\<lambda>(j, v) rs. rs[i + j := v]) (enumerate 0 batchResults) results;
             trace' = trace @ map (\<lambda>c. Start (circuit_id c)) batch
                            @ map (\<lambda>c. Settled (circuit_id c)) (order batch)
         in kwh_loop e page order cs (i + CONCURRENCY) results' trace')
      else (results, trace))"
  by pat_completeness auto
termination
  by (relation "measure (\<lambda>(e, page, order, cs, i, results, trace). length cs - i)")
     (auto simp: CONCURRENCY_def)

declare kwh_loop.simps [simp del]

definition getAllCircuitKwh ::
  "env \<Rightarrow> (string \<Rightarrow> error + response) \<Rightarrow> (circuit list \<Rightarrow> circuit list) \<Rightarrow> circuit list
   \<Rightarrow> jsval list \<times> event list" where
  "getAllCircuitKwh e page order cs =
     kwh_loop e page order cs 0 (replicate (length cs) JNull) []"

text \<open>The number of requests outstanding after a trace.\<close>

fun outstanding :: "event list \<Rightarrow> int" where
  "outstanding [] = 0"
| "outstanding (Start _ # t) = outstanding t + 1"
| "outstanding (Settled _ # t) = outstanding t - 1"

subsection \<open>Session token\<close>

text \<open>
  \<^verbatim>\<open>html.match(/init\s*\(\s*\d+\s*,\s*\d+\s*,\s*\d+\s*,\s*(\d+)/)\<close>, one attempt at the
  start of a string, then the leftmost match.
\<close>

definition eat_char :: "char \<Rightarrow> string \<Rightarrow> string option" where
  "eat_char c s = (case dropWhile is_space s of [] \<Rightarrow> None
                   | x # r \<Rightarrow> if x = c then Some r else None)"

definition eat_digits :: "string \<Rightarrow> (string \<times> string) option" where
  "eat_digits s =
     (let t = dropWhile is_space s in
      if takeWhile is_digit t = [] then None
      else Some (takeWhile is_digit t, dropWhile is_digit t))"

definition match_init_at :: "string \<Rightarrow> string option" where
  "match_init_at s =
     (if starts_with ''init'' s then
        (case eat_char CHR ''('' (drop 4 s) of None \<Rightarrow> None | Some s1 \<Rightarrow>
         case eat_digits s1 of None \<Rightarrow> None | Some (_, s2) \<Rightarrow>
         case eat_char CHR '','' s2 of None \<Rightarrow> None | Some s3 \<Rightarrow>
         case eat_digits s3 of None \<Rightarrow> None | Some (_, s4) \<Rightarrow>
         case eat_char CHR '','' s4 of None \<Rightarrow> None | Some s5 \<Rightarrow>
         case eat_digits s5 of None \<Rightarrow> None | Some (_, s6) \<Rightarrow>
         case eat_char CHR '','' s6 of None \<Rightarrow> None | Some s7 \<Rightarrow>
         case eat_digits s7 of None \<Rightarrow> None | Some (g, _) \<Rightarrow> Some g)
      else None)"

fun match_init :: "string \<Rightarrow> string option" where
  "match_init [] = None"
| "match_init (c # cs) =
     (case match_init_at (c # cs) of Some g \<Rightarrow> Some g | None \<Rightarrow> match_init cs)"

text \<open>
  \<open>getToken()\<close>.  The clock is read only when a token is held, and again when a fetched
  token is stamped.
\<close>

definition fetch_token :: "env \<Rightarrow> world \<Rightarrow> (error + string) \<times> world" where
  "fetch_token e w =
     (case digestFetch e ''/page/devices/device/32'' ''GET'' None w of
        (Inl err, w') \<Rightarrow> (Inl err, w')
      | (Inr r, w') \<Rightarrow>
          (let t = (case match_init (body_text r) of Some g \<Rightarrow> g | None \<Rightarrow> ''32140'')
           in (Inr t, w'\<lparr>token := Some t, tokenAt := clock e (ticks w'),
                         ticks := Suc (ticks w')\<rparr>)))"

definition getToken :: "env \<Rightarrow> world \<Rightarrow> (error + string) \<times> world" where
  "getToken e w =
     (case token w of
        None \<Rightarrow> fetch_token e w
      | Some t \<Rightarrow>
          if t = [] then fetch_token e w
          else if clock e (ticks w) - tokenAt w < 3600000
               then (Inr t, w\<lparr>ticks := Suc (ticks w)\<rparr>)
               else fetch_token e (w\<lparr>ticks := Suc (ticks w)\<rparr>))"

subsection \<open>Device control\<close>

text \<open>
  \<open>token || await getToken()\<close>: a token handed in is used when it is a non-empty string.
  The two closing lines shared by the control operations send the parameters and turn the
  answer into a result: the parsed body, or an error object when the status is not 2xx.
\<close>

definition resolve_token :: "env \<Rightarrow> string option \<Rightarrow> world \<Rightarrow> (error + string) \<times> world" where
  "resolve_token e tk w =
     (case tk of
        None \<Rightarrow> getToken e w
      | Some t \<Rightarrow> if t = [] then getToken e w else (Inr t, w))"

definition control_result :: "env \<Rightarrow> response \<Rightarrow> error + jsval" where
  "control_result e r =
     (if response_ok r then
        (case jsonParse e (body_text r) of None \<Rightarrow> Inl SyntaxError | Some v \<Rightarrow> Inr v)
      else Inr (JObj [(''result'', JStr ''error''),
                      (''status'', JNum (Fin (of_nat (status r))))]))"

definition post_params :: "env \<Rightarrow> string \<Rightarrow> jsval \<Rightarrow> world \<Rightarrow> (error + jsval) \<times> world" where
  "post_params e path params w =
     (case devicePost e path (encodeData e params) w of
        (Inl err, w') \<Rightarrow> (Inl err, w')
      | (Inr r, w') \<Rightarrow> (control_result e r, w'))"

definition setACSettings ::
  "env \<Rightarrow> jsval \<Rightarrow> jsval \<Rightarrow> int \<Rightarrow> jsval \<Rightarrow> string option \<Rightarrow> world \<Rightarrow> (error + jsval) \<times> world" where
  "setACSettings e nodeId eoj settingType val tk w =
     (case resolve_token e tk w of
        (Inl err, w') \<Rightarrow> (Inl err, w')
      | (Inr tok, w') \<Rightarrow>
          post_params e ''/action/devices/device/3211/change''
            (JObj [(''nodeId'', nodeId), (''eoj'', eoj), (''type'', JStr ''0x33''),
                   (''page'', JStr ''1''), (''individual_page'', JStr ''1''),
                   (''setting_type'', JStr (int_to_dec settingType)),
                   (''value'', JStr (js_String e val)),
                   (''token'', JStr tok)]) w')"

definition controlAC ::
  "env \<Rightarrow> jsval \<Rightarrow> jsval \<Rightarrow> jsval \<Rightarrow> string option \<Rightarrow> world \<Rightarrow> (error + jsval) \<times> world" where
  "controlAC e nodeId eoj st tk w =
     (case resolve_token e tk w of
        (Inl err, w') \<Rightarrow> (Inl err, w')
      | (Inr tok, w') \<Rightarrow>
          post_params e ''/action/devices/device/321/change''
            (JObj [(''nodeId'', nodeId), (''eoj'', eoj), (''type'', JStr ''0x33''),
                   (''state'', st), (''token'', JStr tok)]) w')"

text \<open>
  \<open>setFHLevel\<close>: \<^verbatim>\<open>const lvl = Math.max(1, Math.min(9, level));\<close>
  \<^verbatim>\<open>const templevel = '0x3' + lvl;\<close>
\<close>

definition setFHLevel_lvl :: "env \<Rightarrow> jsval \<Rightarrow> jsnum" where
  "setFHLevel_lvl e level = math_max (Fin 1) (math_min (Fin 9) (js_Number e level))"

definition setFHLevel_templevel :: "env \<Rightarrow> jsval \<Rightarrow> string" where
  "setFHLevel_templevel e level = ''0x3'' @ number_to_string e (setFHLevel_lvl e level)"

definition setFHLevel ::
  "env \<Rightarrow> jsval \<Rightarrow> jsval \<Rightarrow> jsval \<Rightarrow> jsval \<Rightarrow> string option \<Rightarrow> world \<Rightarrow> (error + jsval) \<times> world" where
  "setFHLevel e nodeId eoj currentState level tk w =
     (case resolve_token e tk w of
        (Inl err, w') \<Rightarrow> (Inl err, w')
      | (Inr tok, w') \<Rightarrow>
          post_params e ''/action/devices/device/32b/change''
            (JObj [(''nodeId'', nodeId), (''eoj'', eoj), (''type'', JStr ''0x34''),
                   (''state'', currentState),
                   (''templevel'', JStr (setFHLevel_templevel e level)),
                   (''token'', JStr tok)]) w')"

definition controlFH ::
  "env \<Rightarrow> jsval \<Rightarrow> jsval \<Rightarrow> jsval \<Rightarrow> string option \<Rightarrow> world \<Rightarrow> (error + jsval) \<times> world" where
  "controlFH e nodeId eoj st tk w =
     (case resolve_token e tk w of
        (Inl err, w') \<Rightarrow> (Inl err, w')
      | (Inr tok, w') \<Rightarrow>
          post_params e ''/action/devices/device/32b/change''
            (JObj [(''nodeId'', nodeId), (''eoj'', eoj), (''type'', JStr ''0x34''),
                   (''state'', st), (''token'', JStr tok)]) w')"

definition controlBath :: "env \<Rightarrow> string option \<Rightarrow> world \<Rightarrow> (error + jsval) \<times> world" where
  "controlBath e tk w =
     (case resolve_token e tk w of
        (Inl err, w') \<Rightarrow> (Inl err, w')
      | (Inr tok, w') \<Rightarrow>
          (case digestFetch e
                  (''/action/devices/device/301?'' @ urlSearchParams e
                     [(''page'', ''1''), (''old_page'', ''1''), (''nodeid'', ''1073741826''),
                      (''eoj'', ''0x027201''), (''devtype'', ''0x37''), (''bathcmd'', ''0x41''),
                      (''generatecmd'', ''-''), (''geneHeatcmd'', ''-''), (''cleancmd'', ''-''),
                      (''token'', tok)])
                  ''GET'' None w' of
             (Inl err, w'') \<Rightarrow> (Inl err, w'')
           | (Inr r, w'') \<Rightarrow> (control_result e r, w'')))"

definition controlGenerate :: "env \<Rightarrow> string option \<Rightarrow> world \<Rightarrow> (error + jsval) \<times> world" where
  "controlGenerate e tk w =
     (case resolve_token e tk w of
        (Inl err, w') \<Rightarrow> (Inl err, w')
      | (Inr tok, w') \<Rightarrow>
          post_params e ''/action/devices/device/32/ctrl_lanEnefirm_generate''
            (JObj [(''token'', JStr tok), (''generatecmd'', JStr ''0x42'')]) w')"

text \<open>
  A sample answer of the appliance: the first top consumer is visible and has no
  capacity, the solar capacity is a placeholder string, the generation carries a unit.
\<close>

definition sample_flow :: jsval where
  "sample_flow =
     JObj [(''best1'', JNum (Fin 1)), (''u_d_1_title'', JStr ''AC''),
           (''g_d_1_capacity'', JStr ''--''), (''g_capacity'', JStr ''1.5kW'')]"

text \<open>A value that is a number, as the specification asks of a numeric field.\<close>

definition numeric :: "jsval \<Rightarrow> bool" where
  "numeric v = (case v of JNum n \<Rightarrow> True | _ \<Rightarrow> False)"

text \<open>
  Successive batches of at most \<open>CONCURRENCY\<close> circuits, and the events of one batch:
  every request is started, then every request settles.
\<close>

function batches :: "circuit list \<Rightarrow> circuit list list" where
  "batches cs = (if cs = [] then [] else take CONCURRENCY cs # batches (drop CONCURRENCY cs))"
  by pat_completeness auto
termination
  by (relation "measure length") (auto simp: CONCURRENCY_def)

declare batches.simps [simp del]

definition batch_events :: "(circuit list \<Rightarrow> circuit list) \<Rightarrow> circuit list \<Rightarrow> event list" where
  "batch_events order batch =
     map (\<lambda>c. Start (circuit_id c)) batch @ map (\<lambda>c. Settled (circuit_id c)) (order batch)"

text \<open>
  Twenty-five sample circuits, numbered from 1.  The sample pages read the circuit number
  after the 21 characters of \<open>/page/graph/584?data=\<close>: the fetch of every third circuit
  is rejected, the page of any other shows its number as the value.
\<close>

definition sample_circuits25 :: "circuit list" where
  "sample_circuits25 =
     map (\<lambda>k. \<lparr>circuit_id = nat_to_dec k, circuit_name = JStr ''c''\<rparr>) [1..<26]"

definition sample_kwh_pages :: "string \<Rightarrow> error + response" where
  \<open>sample_kwh_pages path =
     (let ident = drop 21 path in
      if digits_value ident mod 3 = 0 then Inl NetworkError
      else Inr \<lparr>status = 200, www_authenticate = None,
                body_text = ''<span id="val_kwh">'' @ ident @ ''</span>''\<rparr>)\<close>

subsection \<open>Reading the circuit-list loop\<close>

text \<open>
  A block the loop tries, the text it hands to \<open>JSON.parse\<close>, and the outcome of one
  try: the circuits, or nothing when the block is skipped or anything in the \<open>try\<close>
  throws.
\<close>

definition candidate :: "string \<Rightarrow> bool" where
  "candidate s \<longleftrightarrow>
     includes_str s ''arrayCircuitNameList''
     \<and> 0 \<le> indexOf s CHR ''('' \<and> indexOf s CHR ''('' < lastIndexOf s CHR '')''"

definition argument_text :: "string \<Rightarrow> string" where
  "argument_text s = trim (slice s (indexOf s CHR ''('' + 1) (lastIndexOf s CHR '')''))"

definition attempt :: "env \<Rightarrow> string \<Rightarrow> circuit list option" where
  "attempt e s =
     (if candidate s then
        (case jsonParse e (argument_text s) of
           None \<Rightarrow> None
         | Some data \<Rightarrow> (case circuits_of e data of Inl err \<Rightarrow> None | Inr cs \<Rightarrow> Some cs))
      else None)"

text \<open>
  The balanced-parenthesis argument, written from the specification: the text after the
  first opening parenthesis up to the closing parenthesis that matches it.
\<close>

fun balanced :: "nat \<Rightarrow> string \<Rightarrow> string option" where
  "balanced k [] = None"
| "balanced k (c # cs) =
     (if c = CHR '')'' then
        (case k of
           0 \<Rightarrow> Some []
         | Suc j \<Rightarrow> (case balanced j cs of None \<Rightarrow> None | Some a \<Rightarrow> Some (c # a)))
      else if c = CHR ''('' then
        (case balanced (Suc k) cs of None \<Rightarrow> None | Some a \<Rightarrow> Some (c # a))
      else (case balanced k cs of None \<Rightarrow> None | Some a \<Rightarrow> Some (c # a)))"

definition spec_balanced_argument :: "string \<Rightarrow> string option" where
  "spec_balanced_argument s =
     (case dropWhile (\<lambda>c. c \<noteq> CHR ''('') s of [] \<Rightarrow> None | _ # t \<Rightarrow> balanced 0 t)"

text \<open>
  Sample pages.  The sample \<open>JSON.parse\<close> knows three texts, an object with one enabled
  circuit, an object with a disabled circuit and two enabled ones, and \<open>null\<close>, and
  rejects every other text; it agrees with the platform on every text the samples hand to
  it.
\<close>

definition sample_literal :: string where
  \<open>sample_literal =
     ''{"arrayCircuitNameList":[{"strId":"3","strBtnType":"1","strCircuit":"Kitchen"}]}''\<close>

definition sample_data :: jsval where
  "sample_data =
     JObj [(''arrayCircuitNameList'',
            JArr [JObj [(''strId'', JStr ''3''), (''strBtnType'', JStr ''1''),
                        (''strCircuit'', JStr ''Kitchen'')]])]"

definition sample_circuit :: circuit where
  "sample_circuit = \<lparr>circuit_id = ''3'', circuit_name = JStr ''Kitchen''\<rparr>"

definition mixed_literal :: string where
  \<open>mixed_literal =
     ''{"arrayCircuitNameList":[{"strId":"1","strBtnType":"0","strCircuit":"Off"},''
     @ ''{"strId":7,"strBtnType":"1"},''
     @ ''{"strId":"3","strBtnType":"1","strCircuit":"Kitchen"}]}''\<close>

definition mixed_data :: jsval where
  "mixed_data =
     JObj [(''arrayCircuitNameList'',
            JArr [JObj [(''strId'', JStr ''1''), (''strBtnType'', JStr ''0''),
                        (''strCircuit'', JStr ''Off'')],
                  JObj [(''strId'', JNum (Fin 7)), (''strBtnType'', JStr ''1'')],
                  JObj [(''strId'', JStr ''3''), (''strBtnType'', JStr ''1''),
                        (''strCircuit'', JStr ''Kitchen'')]])]"

definition sample_json_env :: env where
  "sample_json_env =
     env_always_401\<lparr>jsonParse :=
       (\<lambda>s. if s = sample_literal then Some sample_data
            else if s = mixed_literal then Some mixed_data
            else if s = ''null'' then Some JNull else None)\<rparr>"

definition script_two_calls :: string where
  "script_two_calls = ''init('' @ sample_literal @ ''); go();''"

definition html_two_calls :: string where
  "html_two_calls = ''<html><script>'' @ script_two_calls @ ''</script></html>''"

definition script_null :: string where
  "script_null = ''arrayCircuitNameList(null)''"

definition script_single_call :: string where
  "script_single_call = ''init('' @ sample_literal @ '')''"

definition html_null_first :: string where
  "html_null_first =
     ''<script>'' @ script_null @ ''</script><script>'' @ script_single_call @ ''</script>''"

definition script_mixed :: string where
  "script_mixed = '' init( '' @ mixed_literal @ '' ); ''"

definition html_mixed :: string where
  "html_mixed =
     ''<script>var x = 1;</script><script>'' @ script_null
     @ ''</script><script>'' @ script_mixed @ ''</script>''"

definition mixed_circuits :: "circuit list" where
  "mixed_circuits =
     [\<lparr>circuit_id = ''7'', circuit_name = JStr ''Circuit 7''\<rparr>,
      \<lparr>circuit_id = ''3'', circuit_name = JStr ''Kitchen''\<rparr>]"

text \<open>
  A sample platform for the floor-heater setter: the appliance answers every request with
  the 401 challenge, and the sample encoding of the post parameters shows the state, the
  level code and the token of the object it is given.
\<close>

definition form_text :: "jsval \<Rightarrow> string" where
  "form_text v = (case v of JStr s \<Rightarrow> s | _ \<Rightarrow> [])"

definition env_form :: env where
  "env_form =
     env_always_401\<lparr>encodeData :=
       (\<lambda>v. ''state='' @ form_text (field v ''state'')
            @ ''&templevel='' @ form_text (field v ''templevel'')
            @ ''&token='' @ form_text (field v ''token''))\<rparr>"

section \<open>The cache and broadcast server\<close>

text \<open>
  The devices payload is what \<open>getDevices\<close> builds: a token, two arrays of objects and
  one object.  \<open>None\<close> is \<open>null\<close>.
\<close>

record devices =
  dev_token :: string
  acs :: "obj list"
  fhs :: "obj list"
  enefarm :: obj

record cache =
  realtime :: jsval
  realtimeAt :: int
  totals :: jsval
  totalsAt :: int
  circuits :: "circuit list option"
  circuitKwh :: "(circuit \<times> jsval) list option"
  circuitKwhAt :: int
  devices :: "devices option"
  devicesAt :: int

record server =
  cache :: cache
  nicknames :: "string \<rightharpoonup> jsval"

definition TTL_realtime :: int where "TTL_realtime = 5000"
definition TTL_totals :: int where "TTL_totals = 60000"
definition TTL_circuitKwh :: int where "TTL_circuitKwh = 300000"
definition TTL_devices :: int where "TTL_devices = 10000"

text \<open>
  What one call of the appliance client settles to, and the calls a handler makes.
\<close>

record upstream =
  up_realtime :: "error + jsval"
  up_totals :: "error + jsval"
  up_devices :: "error + devices"

datatype upcall = GetRealtime | GetTotals | GetDevices

datatype content = CJson jsval | CDevices "devices option" | CError error

record reply =
  code :: nat
  content :: content

text \<open>
  \<open>fetchRealtime\<close>, \<open>fetchTotals\<close>: \<open>now\<close> is the reading of \<open>Date.now()\<close> taken
  after the call has settled.  A rejection leaves before the two assignments.
\<close>

definition fetchRealtime :: "upstream \<Rightarrow> int \<Rightarrow> server \<Rightarrow> (error + jsval) \<times> server \<times> upcall list" where
  "fetchRealtime up now srv =
     (case up_realtime up of
        Inl err \<Rightarrow> (Inl err, srv, [GetRealtime])
      | Inr data \<Rightarrow>
          (Inr data, srv\<lparr>cache := (cache srv)\<lparr>realtime := data, realtimeAt := now\<rparr>\<rparr>,
           [GetRealtime]))"

definition fetchTotals :: "upstream \<Rightarrow> int \<Rightarrow> server \<Rightarrow> (error + jsval) \<times> server \<times> upcall list" where
  "fetchTotals up now srv =
     (case up_totals up of
        Inl err \<Rightarrow> (Inl err, srv, [GetTotals])
      | Inr data \<Rightarrow>
          (Inr data, srv\<lparr>cache := (cache srv)\<lparr>totals := data, totalsAt := now\<rparr>\<rparr>,
           [GetTotals]))"

text \<open>
  \<open>applyNicknames(data)\<close> with its inner \<open>applyName\<close>.  \<open>data.acs || []\<close> is the
  array itself, an array being truthy.
\<close>

definition device_key :: "env \<Rightarrow> obj \<Rightarrow> string" where
  "device_key e d = js_String e (obj_get d ''nodeId'') @ ''_'' @ js_String e (obj_get d ''eoj'')"

definition applyName :: "env \<Rightarrow> (string \<rightharpoonup> jsval) \<Rightarrow> obj \<Rightarrow> obj" where
  "applyName e nn d =
     (let key = device_key e d in
      case nn key of
        None \<Rightarrow> d
      | Some v \<Rightarrow> if truthy v then obj_set d ''nickname'' v else d)"

definition applyNicknames :: "env \<Rightarrow> (string \<rightharpoonup> jsval) \<Rightarrow> devices option \<Rightarrow> devices option" where
  "applyNicknames e nn data =
     (case data of
        None \<Rightarrow> None
      | Some dv \<Rightarrow> Some (dv\<lparr>acs := map (applyName e nn) (acs dv),
                             fhs := map (applyName e nn) (fhs dv)\<rparr>))"

definition fetchDevices ::
  "env \<Rightarrow> upstream \<Rightarrow> int \<Rightarrow> server \<Rightarrow> (error + devices option) \<times> server \<times> upcall list" where
  "fetchDevices e up now srv =
     (case up_devices up of
        Inl err \<Rightarrow> (Inl err, srv, [GetDevices])
      | Inr raw \<Rightarrow>
          (let data = applyNicknames e (nicknames srv) (Some raw)
           in (Inr data, srv\<lparr>cache := (cache srv)\<lparr>devices := data, devicesAt := now\<rparr>\<rparr>,
               [GetDevices])))"

text \<open>
  The three cached reads.  \<open>now\<close> is the reading of the clock that the expiry test takes,
  \<open>now'\<close> the one that stamps a refresh.  The body sent is the cache as it is after the
  refresh; a rejection is answered with 502 and the error.
\<close>

definition get_realtime :: "upstream \<Rightarrow> int \<Rightarrow> int \<Rightarrow> server \<Rightarrow> reply \<times> server \<times> upcall list" where
  "get_realtime up now now' srv =
     (if now - realtimeAt (cache srv) > TTL_realtime then
        (case fetchRealtime up now' srv of
           (Inl err, srv', calls) \<Rightarrow> (\<lparr>code = 502, content = CError err\<rparr>, srv', calls)
         | (Inr _, srv', calls) \<Rightarrow>
             (\<lparr>code = 200, content = CJson (realtime (cache srv'))\<rparr>, srv', calls))
      else (\<lparr>code = 200, content = CJson (realtime (cache srv))\<rparr>, srv, []))"

definition get_totals :: "upstream \<Rightarrow> int \<Rightarrow> int \<Rightarrow> server \<Rightarrow> reply \<times> server \<times> upcall list" where
  "get_totals up now now' srv =
     (if now - totalsAt (cache srv) > TTL_totals then
        (case fetchTotals up now' srv of
           (Inl err, srv', calls) \<Rightarrow> (\<lparr>code = 502, content = CError err\<rparr>, srv', calls)
         | (Inr _, srv', calls) \<Rightarrow>
             (\<lparr>code = 200, content = CJson (totals (cache srv'))\<rparr>, srv', calls))
      else (\<lparr>code = 200, content = CJson (totals (cache srv))\<rparr>, srv, []))"

definition get_devices ::
  "env \<Rightarrow> upstream \<Rightarrow> int \<Rightarrow> int \<Rightarrow> server \<Rightarrow> reply \<times> server \<times> upcall list" where
  "get_devices e up now now' srv =
     (if now - devicesAt (cache srv) > TTL_devices then
        (case fetchDevices e up now' srv of
           (Inl err, srv', calls) \<Rightarrow> (\<lparr>code = 502, content = CError err\<rparr>, srv', calls)
         | (Inr _, srv', calls) \<Rightarrow>
             (\<lparr>code = 200, content = CDevices (devices (cache srv'))\<rparr>, srv', calls))
      else (\<lparr>code = 200, content = CDevices (devices (cache srv))\<rparr>, srv, []))"

text \<open>The three routes under one name, with the entry each one reads.\<close>

datatype category = Realtime | Totals | Devices

fun rest_get ::
  "category \<Rightarrow> env \<Rightarrow> upstream \<Rightarrow> int \<Rightarrow> int \<Rightarrow> server \<Rightarrow> reply \<times> server \<times> upcall list" where
  "rest_get Realtime e up now now' srv = get_realtime up now now' srv"
| "rest_get Totals e up now now' srv = get_totals up now now' srv"
| "rest_get Devices e up now now' srv = get_devices e up now now' srv"

fun ttl :: "category \<Rightarrow> int" where
  "ttl Realtime = TTL_realtime"
| "ttl Totals = TTL_totals"
| "ttl Devices = TTL_devices"

fun entry_at :: "category \<Rightarrow> server \<Rightarrow> int" where
  "entry_at Realtime srv = realtimeAt (cache srv)"
| "entry_at Totals srv = totalsAt (cache srv)"
| "entry_at Devices srv = devicesAt (cache srv)"

fun entry_payload :: "category \<Rightarrow> server \<Rightarrow> content" where
  "entry_payload Realtime srv = CJson (realtime (cache srv))"
| "entry_payload Totals srv = CJson (totals (cache srv))"
| "entry_payload Devices srv = CDevices (devices (cache srv))"

fun call_of :: "category \<Rightarrow> upcall" where
  "call_of Realtime = GetRealtime"
| "call_of Totals = GetTotals"
| "call_of Devices = GetDevices"

text \<open>What a refresh of a category would store: the client's answer, or its rejection.\<close>

fun fetched :: "category \<Rightarrow> env \<Rightarrow> upstream \<Rightarrow> server \<Rightarrow> error + content" where
  "fetched Realtime e up srv =
     (case up_realtime up of Inl err \<Rightarrow> Inl err | Inr data \<Rightarrow> Inr (CJson data))"
| "fetched Totals e up srv =
     (case up_totals up of Inl err \<Rightarrow> Inl err | Inr data \<Rightarrow> Inr (CJson data))"
| "fetched Devices e up srv =
     (case up_devices up of Inl err \<Rightarrow> Inl err
      | Inr raw \<Rightarrow> Inr (CDevices (applyNicknames e (nicknames srv) (Some raw))))"



text \<open>The cache as the server creates it, and sample states for the properties below.\<close>

definition initial_cache :: cache where
  "initial_cache =
     \<lparr>realtime = JNull, realtimeAt = 0, totals = JNull, totalsAt = 0, circuits = None,
      circuitKwh = None, circuitKwhAt = 0, devices = None, devicesAt = 0\<rparr>"

definition sample_server :: server where
  "sample_server =
     \<lparr>cache = initial_cache\<lparr>realtime := JObj [(''gen_kw'', JNum (Fin 1))], realtimeAt := 1000\<rparr>,
      nicknames = Map.empty\<rparr>"

definition sample_upstream :: upstream where
  "sample_upstream =
     \<lparr>up_realtime = Inr (JObj [(''gen_kw'', JNum (Fin 2))]),
      up_totals = Inl NetworkError,
      up_devices = Inl NetworkError\<rparr>"

definition sample_devices :: devices where
  "sample_devices =
     \<lparr>dev_token = ''32140'',
      acs = [[(''nodeId'', JStr ''1073741827''), (''eoj'', JStr ''0x013001''),
              (''name'', JStr ''AC-A''), (''nickname'', JStr ''Bedroom'')],
             [(''nodeId'', JStr ''1073741828''), (''eoj'', JStr ''0x013001''),
              (''name'', JStr ''AC-B'')]],
      fhs = [],
      enefarm = []\<rparr>"

definition named_server :: server where
  "named_server =
     \<lparr>cache = initial_cache\<lparr>devices := Some sample_devices, devicesAt := 1000\<rparr>,
      nicknames = [''1073741827_0x013001'' \<mapsto> JStr ''Bedroom'']\<rparr>"


section \<open>The control route\<close>

text \<open>
  \<open>POST /api/devices/control\<close>.  \<open>body\<close> is \<open>req.body || {}\<close>.  The token is
  \<open>cache.devices?.token || await aiseg2.getToken()\<close>, resolved before the action is
  looked at.  The result is the reply, whether the delayed refetch of the devices has been
  scheduled, and the world after the handler.
\<close>

definition cached_token :: "server \<Rightarrow> string option" where
  "cached_token srv = (case devices (cache srv) of None \<Rightarrow> None | Some dv \<Rightarrow> Some (dev_token dv))"

definition answer :: "(error + jsval) \<times> world \<Rightarrow> reply \<times> bool \<times> world" where
  "answer r =
     (case r of
        (Inl err, w) \<Rightarrow> (\<lparr>code = 502, content = CError err\<rparr>, False, w)
      | (Inr result, w) \<Rightarrow> (\<lparr>code = 200, content = CJson result\<rparr>, True, w))"

definition post_control :: "env \<Rightarrow> obj \<Rightarrow> server \<Rightarrow> world \<Rightarrow> reply \<times> bool \<times> world" where
  "post_control e body srv w =
     (let action = obj_get body ''action'';
          nodeId = obj_get body ''nodeId'';
          eoj = obj_get body ''eoj'';
          st = obj_get body ''state'';
          val = obj_get body ''value''
      in case resolve_token e (cached_token srv) w of
           (Inl err, w1) \<Rightarrow> (\<lparr>code = 502, content = CError err\<rparr>, False, w1)
         | (Inr tok, w1) \<Rightarrow>
             if action = JStr ''toggleAC'' then answer (controlAC e nodeId eoj st (Some tok) w1)
             else if action = JStr ''toggleFH'' then answer (controlFH e nodeId eoj st (Some tok) w1)
             else if action = JStr ''toggleBath'' then answer (controlBath e (Some tok) w1)
             else if action = JStr ''toggleGenerate'' then answer (controlGenerate e (Some tok) w1)
             else if action = JStr ''setACMode''
               then answer (setACSettings e nodeId eoj 1 val (Some tok) w1)
             else if action = JStr ''setACTemp''
               then answer (setACSettings e nodeId eoj 2 val (Some tok) w1)
             else if action = JStr ''setACFan''
               then answer (setACSettings e nodeId eoj 3 val (Some tok) w1)
             else if action = JStr ''setFHLevel''
               then answer (setFHLevel e nodeId eoj st val (Some tok) w1)
             else (\<lparr>code = 400, content = CJson (JObj [(''error'', JStr ''unknown action'')])\<rparr>,
                   False, w1))"

text \<open>The eight supported actions, and the reply to any other.\<close>

definition supported_actions :: "string list" where
  "supported_actions =
     [''toggleAC'', ''toggleFH'', ''toggleBath'', ''toggleGenerate'', ''setACMode'',
      ''setACTemp'', ''setACFan'', ''setFHLevel'']"

definition supported :: "jsval \<Rightarrow> bool" where
  "supported action = (case action of JStr s \<Rightarrow> s \<in> set supported_actions | _ \<Rightarrow> False)"

definition unknown_action_reply :: reply where
  "unknown_action_reply =
     \<lparr>code = 400, content = CJson (JObj [(''error'', JStr ''unknown action'')])\<rparr>"

text \<open>
  A server that has just started, an appliance that cannot be reached, and a request with
  an action outside the eight.
\<close>

definition initial_server :: server where
  "initial_server = \<lparr>cache = initial_cache, nicknames = Map.empty\<rparr>"

definition env_unreachable :: env where
  "env_unreachable = env_always_401\<lparr>appliance := (\<lambda>h rq. Inl NetworkError)\<rparr>"

definition reboot_body :: obj where
  "reboot_body = [(''action'', JStr ''reboot'')]"

text \<open>
  A token is at hand when the cached devices payload carries one, or when the client holds
  one that is less than an hour old.
\<close>

definition token_at_hand :: "env \<Rightarrow> server \<Rightarrow> world \<Rightarrow> bool" where
  "token_at_hand e srv w =
     (case cached_token srv of
        Some t \<Rightarrow> if t \<noteq> [] then True
                  else (case token w of None \<Rightarrow> False
                        | Some u \<Rightarrow> u \<noteq> [] \<and> clock e (ticks w) - tokenAt w < 3600000)
      | None \<Rightarrow> (case token w of None \<Rightarrow> False
                 | Some u \<Rightarrow> u \<noteq> [] \<and> clock e (ticks w) - tokenAt w < 3600000))"

section \<open>Properties of the digest transport\<close>

lemma authorization_header_spec:
  "authorization_header h r1 meth path cnonce = spec_authorization h r1 meth path cnonce"
  by (cases "challenge r1 ''qop''"; cases "challenge r1 ''opaque''")
     (simp_all add: authorization_header_def spec_authorization_def spec_response_def
        spec_HA1_def spec_HA2_def challenge_def challenge_realm_def challenge_nonce_def
        USER_def PASS_def Let_def)

lemma first_request_eq:
  "\<lparr>req_url = BASE @ path, req_method = meth,
    req_headers = (if body \<noteq> None
                   then [(''Content-Type'', ''application/x-www-form-urlencoded'')] else []),
    req_body = body\<rparr> = first_request path meth body"
  "\<lparr>req_url = BASE @ path, req_method = meth,
    req_headers = (if body \<noteq> None
                   then [(''Content-Type'', ''application/x-www-form-urlencoded'')] else [])
                  @ [(''Authorization'', a)],
    req_body = body\<rparr> = with_authorization (first_request path meth body) a"
  by (cases body; simp add: first_request_def with_authorization_def BASE_def)+

lemma device_request_eq:
  "\<lparr>req_url = BASE @ path, req_method = ''POST'',
    req_headers = [(''Content-Type'', ''application/x-www-form-urlencoded''),
                   (''X-Requested-With'', ''XMLHttpRequest'')],
    req_body = Some body\<rparr> = device_request path body"
  "\<lparr>req_url = BASE @ path, req_method = ''POST'',
    req_headers = [(''Content-Type'', ''application/x-www-form-urlencoded''),
                   (''X-Requested-With'', ''XMLHttpRequest'')] @ [(''Authorization'', a)],
    req_body = Some body\<rparr> = with_authorization (device_request path body) a"
  by (simp_all add: device_request_def with_authorization_def BASE_def)

text \<open>The transport in three cases: a rejection, an answer other than 401, a 401.\<close>

lemma digestFetch_cases:
  "digestFetch e path meth body w =
     (let rq1 = first_request path meth body in
      case appliance e (sent w) rq1 of
        Inl err \<Rightarrow> (Inl err, w\<lparr>sent := sent w @ [rq1]\<rparr>)
      | Inr r1 \<Rightarrow>
          if status r1 \<noteq> 401 then (Inr r1, w\<lparr>sent := sent w @ [rq1]\<rparr>)
          else
            (let rq2 = with_authorization rq1
                         (spec_authorization (md5 e) r1 meth path (randomHex e (draws w)))
             in (appliance e (sent w @ [rq1]) rq2,
                 w\<lparr>sent := sent w @ [rq1, rq2], draws := Suc (draws w)\<rparr>)))"
  unfolding digestFetch_def Let_def first_request_eq authorization_header_spec
  by (simp add: fetch_def split: sum.splits)

lemma devicePost_cases:
  "devicePost e path body w =
     (let rq1 = device_request path body in
      case appliance e (sent w) rq1 of
        Inl err \<Rightarrow> (Inl err, w\<lparr>sent := sent w @ [rq1]\<rparr>)
      | Inr r1 \<Rightarrow>
          if status r1 \<noteq> 401 then (Inr r1, w\<lparr>sent := sent w @ [rq1]\<rparr>)
          else
            (let rq2 = with_authorization rq1
                         (spec_authorization (md5 e) r1 ''POST'' path (randomHex e (draws w)))
             in (appliance e (sent w @ [rq1]) rq2,
                 w\<lparr>sent := sent w @ [rq1, rq2], draws := Suc (draws w)\<rparr>)))"
  unfolding devicePost_def Let_def device_request_eq authorization_header_spec
  by (simp add: fetch_def split: sum.splits)

lemma digestFetch_401:
  assumes "appliance e (sent w) (first_request path meth body) = Inr r1" "status r1 = 401"
  shows "digestFetch e path meth body w =
     (let rq1 = first_request path meth body;
          rq2 = with_authorization rq1
                  (spec_authorization (md5 e) r1 meth path (randomHex e (draws w)))
      in (appliance e (sent w @ [rq1]) rq2,
          w\<lparr>sent := sent w @ [rq1, rq2], draws := Suc (draws w)\<rparr>))"
  using assms by (simp add: digestFetch_cases)

lemma devicePost_401:
  assumes "appliance e (sent w) (device_request path body) = Inr r1" "status r1 = 401"
  shows "devicePost e path body w =
     (let rq1 = device_request path body;
          rq2 = with_authorization rq1
                  (spec_authorization (md5 e) r1 ''POST'' path (randomHex e (draws w)))
      in (appliance e (sent w @ [rq1]) rq2,
          w\<lparr>sent := sent w @ [rq1, rq2], draws := Suc (draws w)\<rparr>))"
  using assms by (simp add: devicePost_cases)

lemma digestFetch_sent:
  "\<exists>rqs. sent (snd (digestFetch e path meth body w)) = sent w @ rqs \<and> rqs \<noteq> [] \<and>
         (\<forall>rq \<in> set rqs. req_url rq = BASE @ path \<and> req_method rq = meth)"
  by (simp add: digestFetch_cases Let_def first_request_def with_authorization_def BASE_def
        split: sum.splits)

lemma digestFetch_ticks:
  "digestFetch e path meth body (w\<lparr>ticks := n\<rparr>)
     = (fst (digestFetch e path meth body w), (snd (digestFetch e path meth body w))\<lparr>ticks := n\<rparr>)"
  by (simp add: digestFetch_cases Let_def split: sum.splits)

text \<open>
  Claim C1.  When the first answer is a 401, the transport sends exactly one more request:
  the same request with an \<open>Authorization\<close> header whose \<open>uri\<close> is the request path
  (query string included) and whose response digest follows the reference formula, with the
  realm defaulting to \<open>AiSEG\<close> and the nonce to the empty string; the answer to that
  retry, a second 401 included, is returned as it is.  This holds for \<open>digestFetch\<close> and
  for \<open>devicePost\<close>.
\<close>

theorem digest_retry_formula:
  "(appliance e (sent w) (first_request path meth body) = Inr r1 \<and> status r1 = 401 \<longrightarrow>
      digestFetch e path meth body w =
        (let rq1 = first_request path meth body;
             rq2 = with_authorization rq1
                     (spec_authorization (md5 e) r1 meth path (randomHex e (draws w)))
         in (appliance e (sent w @ [rq1]) rq2,
             w\<lparr>sent := sent w @ [rq1, rq2], draws := Suc (draws w)\<rparr>))) \<and>
   (appliance e (sent w) (device_request path pbody) = Inr r2 \<and> status r2 = 401 \<longrightarrow>
      devicePost e path pbody w =
        (let rq1 = device_request path pbody;
             rq2 = with_authorization rq1
                     (spec_authorization (md5 e) r2 ''POST'' path (randomHex e (draws w)))
         in (appliance e (sent w @ [rq1]) rq2,
             w\<lparr>sent := sent w @ [rq1, rq2], draws := Suc (draws w)\<rparr>)))"
  using digestFetch_401 [of e w path meth body r1] devicePost_401 [of e w path pbody r2]
  by blast

lemma challenge_401_fields:
  "challenge challenge_401 ''realm'' = Some ''Home''"
  "challenge challenge_401 ''nonce'' = Some ''abc''"
  "challenge challenge_401 ''qop'' = Some ''auth''"
  "challenge challenge_401 ''opaque'' = None"
  by (simp_all add: challenge_def challenge_401_def parseWWWAuth_def match_pair_def
        is_word_char_def)

lemma challenge_401_status: "status challenge_401 = 401"
  by (simp add: challenge_401_def)

theorem digest_retry_formula_witness:
  \<open>(appliance env_always_401 (sent world0) (first_request ''/page/graph/584?data=eyJ9'' ''GET'' None)
      = Inr challenge_401 \<and> status challenge_401 = 401) \<and>
   digestFetch env_always_401 ''/page/graph/584?data=eyJ9'' ''GET'' None world0 =
     (Inr challenge_401,
      world0\<lparr>sent := [first_request ''/page/graph/584?data=eyJ9'' ''GET'' None,
                       with_authorization (first_request ''/page/graph/584?data=eyJ9'' ''GET'' None)
                        (''Digest username="aiseg", realm="Home", nonce="abc", ''
                         @ ''uri="/page/graph/584?data=eyJ9", ''
                         @ ''response="md5(md5(aiseg:Home:0123456789):abc:00000001:''
                         @ ''0a1b2c3d4e5f6071:auth:md5(GET:/page/graph/584?data=eyJ9))", ''
                         @ ''qop=auth, nc=00000001, cnonce="0a1b2c3d4e5f6071"'')],
              draws := 1\<rparr>) \<and>
   (appliance env_always_401 (sent world0) (device_request ''/action/devices/device/32b/change'' ''data=x'')
      = Inr challenge_401 \<and> status challenge_401 = 401) \<and>
   devicePost env_always_401 ''/action/devices/device/32b/change'' ''data=x'' world0 =
     (Inr challenge_401,
      world0\<lparr>sent := [device_request ''/action/devices/device/32b/change'' ''data=x'',
                       with_authorization (device_request ''/action/devices/device/32b/change'' ''data=x'')
                        (''Digest username="aiseg", realm="Home", nonce="abc", ''
                         @ ''uri="/action/devices/device/32b/change", ''
                         @ ''response="md5(md5(aiseg:Home:0123456789):abc:00000001:''
                         @ ''0a1b2c3d4e5f6071:auth:md5(POST:/action/devices/device/32b/change))", ''
                         @ ''qop=auth, nc=00000001, cnonce="0a1b2c3d4e5f6071"'')],
              draws := 1\<rparr>)\<close>
  using digest_retry_formula [of env_always_401 world0 "''/page/graph/584?data=eyJ9''" "''GET''" None
          challenge_401 "''data=x''" challenge_401]
        digest_retry_formula [of env_always_401 world0 "''/action/devices/device/32b/change''" "''GET''" None
          challenge_401 "''data=x''" challenge_401]
  by (simp add: env_always_401_def world0_def Let_def spec_authorization_def spec_response_def
        spec_HA1_def spec_HA2_def challenge_realm_def challenge_nonce_def challenge_401_fields
        challenge_401_status)

section \<open>Properties of the totals scrape\<close>

lemma getTotals_entries:
  "getTotals page =
     [(''solar'', scrape_total page 51111), (''consumption'', scrape_total page 52111),
      (''purchase'', scrape_total page 53111), (''sold'', scrape_total page 54111)]"
  by (simp add: getTotals_def totals_pages_def enumerate_eq_zip upt_rec [of 0] upt_rec [of 1]
        upt_rec [of 2] upt_rec [of 3] upt_rec [of 4])

lemma scrape_total_rejected:
  "page (''/page/graph/'' @ int_to_dec ident) = Inl err \<Longrightarrow> scrape_total page ident = JNull"
  by (simp add: scrape_total_def)

lemma scrape_total_miss:
  "page (''/page/graph/'' @ int_to_dec ident) = Inr r \<Longrightarrow> match_kwh (body_text r) = None \<Longrightarrow>
   scrape_total page ident = JNull"
  by (simp add: scrape_total_def parseKwh_def)

lemma totals_paths:
  "int_to_dec 51111 = ''51111''" "int_to_dec 52111 = ''52111''"
  "int_to_dec 53111 = ''53111''" "int_to_dec 54111 = ''54111''"
  by (simp_all add: int_to_dec_def nat_to_dec.simps)

lemma parseKwh_one_comma:
  \<open>parseKwh ''<span id="val_kwh">1,234.56</span>'' = JNum (Fin (123456 / 100))\<close>
  by (simp add: parseKwh_def match_kwh_span_def starts_with_def includes_str_def is_kwh_char_def
        is_digit_def is_space_def parseFloat_str_def unsigned_literal_def exponent_part_def
        digits_value_def)

text \<open>
  Claim C3, evaluated.  Of four pages, one shows a value with two group separators, one the
  value \<open>1,234.56\<close>, one no span at all, and one fetch is rejected.  The second gives
  \<open>1234.56\<close> and the last two \<open>null\<close>, each under its own key; the first gives
  \<open>1234\<close>, not \<open>1234567.89\<close>: only the first comma is taken out, and \<open>parseFloat\<close>
  stops at the second.
\<close>

theorem getTotals_two_commas:
  "getTotals sample_pages =
     [(''solar'', JNum (Fin 1234)), (''consumption'', JNum (Fin (123456 / 100))),
      (''purchase'', JNull), (''sold'', JNull)]"
  by (simp add: getTotals_entries scrape_total_def totals_paths sample_pages_def
        parseKwh_def match_kwh_span_def starts_with_def includes_str_def is_kwh_char_def
        is_digit_def is_space_def parseFloat_str_def unsigned_literal_def exponent_part_def
        digits_value_def)

section \<open>Properties of the realtime snapshot\<close>

lemma field_obj [simp]: "field (JObj kv) k = obj_get kv k"
  by (simp add: field_def)

lemma or_zero_number: "\<exists>n. or_zero m = JNum n \<and> n \<noteq> NaN"
  by (simp add: or_zero_def)

lemma or_zero_NaN: "or_zero NaN = JNum (Fin 0)"
  by (simp add: or_zero_def)

text \<open>
  Claim C9 fails at the sample answer: the visible top consumer has no capacity and its
  \<open>watts\<close> is \<open>undefined\<close>, not 0; the solar capacity is a string and is passed on
  as it is.
\<close>

theorem realtime_fields_counterexample:
  "realtime_snapshot env_always_401 sample_flow =
     Inr (JObj
       [(''gen_kw'', JNum (Fin (3 / 2))), (''use_kw'', JNum (Fin 0)),
        (''solar_w'', JStr ''--''), (''enefarm_w'', JNum (Fin 0)),
        (''selling'', JBool False),
        (''top'', JArr [JObj [(''name'', JStr ''AC''), (''watts'', JUndefined),
                              (''visible'', JBool True)]]),
        (''ev_connected'', JBool False), (''battery_pct'', JNull),
        (''fc_connected'', JBool False),
        (''raw'', sample_flow)]) \<and>
   field sample_flow ''u_d_1_capacity'' = JUndefined \<and>
   \<not> numeric (JStr ''--'') \<and> \<not> numeric JUndefined"
  by (simp add: realtime_snapshot_def sample_flow_def top_entry_def is_one_def obj_get_def
        nullish_zero_def or_zero_def numeric_def js_Number_def
        parseFloat_str_def unsigned_literal_def exponent_part_def digits_value_def
        is_digit_def is_space_def starts_with_def)

text \<open>
  Claim C9 as amended.  In every snapshot \<open>gen_kw\<close> and \<open>use_kw\<close> are numbers other
  than \<open>NaN\<close>, and 0 when \<open>parseFloat\<close> reads no number from the source field (an
  absent field included); \<open>solar_w\<close> and \<open>enefarm_w\<close> are 0 when the source field is
  absent or \<open>null\<close> and the source value otherwise, whatever its type; the \<open>watts\<close> of
  a top consumer is the source field as it is.
\<close>

theorem realtime_fields:
  "realtime_snapshot e d = Inr snap \<longrightarrow>
     (\<exists>n. field snap ''gen_kw'' = JNum n \<and> n \<noteq> NaN) \<and>
     (\<exists>n. field snap ''use_kw'' = JNum n \<and> n \<noteq> NaN) \<and>
     (parseFloat (field d ''g_capacity'') = NaN \<longrightarrow> field snap ''gen_kw'' = JNum (Fin 0)) \<and>
     (parseFloat (field d ''u_capacity'') = NaN \<longrightarrow> field snap ''use_kw'' = JNum (Fin 0)) \<and>
     field snap ''solar_w'' =
       (if field d ''g_d_1_capacity'' = JNull \<or> field d ''g_d_1_capacity'' = JUndefined
        then JNum (Fin 0) else field d ''g_d_1_capacity'') \<and>
     field snap ''enefarm_w'' =
       (if field d ''g_d_2_capacity'' = JNull \<or> field d ''g_d_2_capacity'' = JUndefined
        then JNum (Fin 0) else field d ''g_d_2_capacity'') \<and>
     field snap ''top'' =
       JArr (filter (\<lambda>c. field c ''visible'' = JBool True)
         [top_entry d ''u_d_1_title'' ''u_d_1_capacity'' ''best1'',
          top_entry d ''u_d_2_title'' ''u_d_2_capacity'' ''best2'',
          top_entry d ''u_d_3_title'' ''u_d_3_capacity'' ''best3'']) \<and>
     field (top_entry d ''u_d_1_title'' ''u_d_1_capacity'' ''best1'') ''watts''
       = field d ''u_d_1_capacity'' \<and>
     field (top_entry d ''u_d_2_title'' ''u_d_2_capacity'' ''best2'') ''watts''
       = field d ''u_d_2_capacity'' \<and>
     field (top_entry d ''u_d_3_title'' ''u_d_3_capacity'' ''best3'') ''watts''
       = field d ''u_d_3_capacity''"
proof
  assume a: "realtime_snapshot e d = Inr snap"
  then have snap: "snap = JObj
        [(''gen_kw'', or_zero (parseFloat (field d ''g_capacity''))),
         (''use_kw'', or_zero (parseFloat (field d ''u_capacity''))),
         (''solar_w'', nullish_zero (field d ''g_d_1_capacity'')),
         (''enefarm_w'', nullish_zero (field d ''g_d_2_capacity'')),
         (''selling'', is_one (field d ''lo_buy_sell'')),
         (''top'', JArr (filter (\<lambda>c. field c ''visible'' = JBool True)
            [top_entry d ''u_d_1_title'' ''u_d_1_capacity'' ''best1'',
             top_entry d ''u_d_2_title'' ''u_d_2_capacity'' ''best2'',
             top_entry d ''u_d_3_title'' ''u_d_3_capacity'' ''best3''])),
         (''ev_connected'', is_one (field d ''connEv'')),
         (''battery_pct'', if truthy (field d ''connSb'') then field d ''percent'' else JNull),
         (''fc_connected'', JBool (num_gt (js_Number e (field d ''connFc'')) (Fin 0))),
         (''raw'', d)]"
    by (auto simp: realtime_snapshot_def split: if_splits)
  have g: "field snap ''gen_kw'' = or_zero (parseFloat (field d ''g_capacity''))"
    and u: "field snap ''use_kw'' = or_zero (parseFloat (field d ''u_capacity''))"
    and s: "field snap ''solar_w'' = nullish_zero (field d ''g_d_1_capacity'')"
    and f: "field snap ''enefarm_w'' = nullish_zero (field d ''g_d_2_capacity'')"
    and t: "field snap ''top'' = JArr (filter (\<lambda>c. field c ''visible'' = JBool True)
            [top_entry d ''u_d_1_title'' ''u_d_1_capacity'' ''best1'',
             top_entry d ''u_d_2_title'' ''u_d_2_capacity'' ''best2'',
             top_entry d ''u_d_3_title'' ''u_d_3_capacity'' ''best3''])"
    by (simp_all add: snap obj_get_def)
  have w: "field (top_entry d a b c) ''watts'' = field d b" for a b c
    by (simp add: top_entry_def obj_get_def)
  show "(\<exists>n. field snap ''gen_kw'' = JNum n \<and> n \<noteq> NaN) \<and>
     (\<exists>n. field snap ''use_kw'' = JNum n \<and> n \<noteq> NaN) \<and>
     (parseFloat (field d ''g_capacity'') = NaN \<longrightarrow> field snap ''gen_kw'' = JNum (Fin 0)) \<and>
     (parseFloat (field d ''u_capacity'') = NaN \<longrightarrow> field snap ''use_kw'' = JNum (Fin 0)) \<and>
     field snap ''solar_w'' =
       (if field d ''g_d_1_capacity'' = JNull \<or> field d ''g_d_1_capacity'' = JUndefined
        then JNum (Fin 0) else field d ''g_d_1_capacity'') \<and>
     field snap ''enefarm_w'' =
       (if field d ''g_d_2_capacity'' = JNull \<or> field d ''g_d_2_capacity'' = JUndefined
        then JNum (Fin 0) else field d ''g_d_2_capacity'') \<and>
     field snap ''top'' =
       JArr (filter (\<lambda>c. field c ''visible'' = JBool True)
         [top_entry d ''u_d_1_title'' ''u_d_1_capacity'' ''best1'',
          top_entry d ''u_d_2_title'' ''u_d_2_capacity'' ''best2'',
          top_entry d ''u_d_3_title'' ''u_d_3_capacity'' ''best3'']) \<and>
     field (top_entry d ''u_d_1_title'' ''u_d_1_capacity'' ''best1'') ''watts''
       = field d ''u_d_1_capacity'' \<and>
     field (top_entry d ''u_d_2_title'' ''u_d_2_capacity'' ''best2'') ''watts''
       = field d ''u_d_2_capacity'' \<and>
     field (top_entry d ''u_d_3_title'' ''u_d_3_capacity'' ''best3'') ''watts''
       = field d ''u_d_3_capacity''"
    unfolding g u s f t w
    using or_zero_number or_zero_NaN by (simp add: nullish_zero_def)
qed

theorem realtime_fields_witness:
  "realtime_snapshot env_always_401 sample_flow \<noteq> Inl TypeError \<and>
   parseFloat (field sample_flow ''u_capacity'') = NaN \<and>
   (case realtime_snapshot env_always_401 sample_flow of
      Inl err \<Rightarrow> False
    | Inr snap \<Rightarrow>
        field snap ''gen_kw'' = JNum (Fin (3 / 2)) \<and> field snap ''use_kw'' = JNum (Fin 0) \<and>
        field snap ''solar_w'' = JStr ''--'' \<and> field snap ''enefarm_w'' = JNum (Fin 0))"
  using realtime_fields [of env_always_401 sample_flow]
  by (simp add: realtime_snapshot_def sample_flow_def top_entry_def is_one_def obj_get_def
        nullish_zero_def or_zero_def js_Number_def
        parseFloat_str_def unsigned_literal_def exponent_part_def digits_value_def
        is_digit_def is_space_def starts_with_def)

section \<open>Properties of the bulk kWh fetch\<close>

lemma fold_update_enumerate:
  "i + k + length vs \<le> length rs \<Longrightarrow>
   fold (\<lambda>(j, v) rs. rs[i + j := v]) (enumerate k vs) rs
     = take (i + k) rs @ vs @ drop (i + k + length vs) rs"
proof (induction vs arbitrary: k rs)
  case Nil
  then show ?case by simp
next
  case (Cons v vs)
  have len: "i + Suc k + length vs \<le> length (rs[i + k := v])" using Cons.prems by simp
  have lt: "i + k < length rs" using Cons.prems by simp
  have "fold (\<lambda>(j, v) rs. rs[i + j := v]) (enumerate k (v # vs)) rs
          = fold (\<lambda>(j, v) rs. rs[i + j := v]) (enumerate (Suc k) vs) (rs[i + k := v])"
    by simp
  also have "\<dots> = take (i + Suc k) (rs[i + k := v]) @ vs
                    @ drop (i + Suc k + length vs) (rs[i + k := v])"
    using Cons.IH [OF len] .
  also have "take (i + Suc k) (rs[i + k := v]) = take (i + k) rs @ [v]"
    using lt by (simp add: take_Suc_conv_app_nth)
  also have "drop (i + Suc k + length vs) (rs[i + k := v]) = drop (i + Suc k + length vs) rs"
    by simp
  finally show ?case by simp
qed

lemma kwh_loop_results:
  "length results = length cs \<Longrightarrow>
   fst (kwh_loop e page order cs i results trace)
     = take i results @ map (kwh_or_null e page) (drop i cs)"
proof (induction e page order cs i results trace rule: kwh_loop.induct)
  case (1 e page order cs i results trace)
  show ?case
  proof (cases "i < length cs")
    case False
    then show ?thesis using "1.prems" by (simp add: kwh_loop.simps [of _ _ _ cs i])
  next
    case True
    define batch where "batch = take CONCURRENCY (drop i cs)"
    define rs' where
      "rs' = fold (\<lambda>(j, v) rs. rs[i + j := v]) (enumerate 0 (map (kwh_or_null e page) batch)) results"
    define tr' where "tr' = trace @ map (\<lambda>c. Start (circuit_id c)) batch
                            @ map (\<lambda>c. Settled (circuit_id c)) (order batch)"
    have lb: "i + length batch \<le> length results"
      using True "1.prems" by (simp add: batch_def)
    have rs: "rs' = take i results @ map (kwh_or_null e page) batch
                      @ drop (i + length batch) results"
      using fold_update_enumerate [of i 0 "map (kwh_or_null e page) batch" results] lb
      by (simp add: rs'_def)
    then have len: "length rs' = length cs" using lb "1.prems" by simp
    have step: "kwh_loop e page order cs i results trace
                  = kwh_loop e page order cs (i + CONCURRENCY) rs' tr'"
      using True
      by (subst kwh_loop.simps) (simp add: Let_def batch_def rs'_def tr'_def)
    have ih: "fst (kwh_loop e page order cs (i + CONCURRENCY) rs' tr')
                = take (i + CONCURRENCY) rs' @ map (kwh_or_null e page) (drop (i + CONCURRENCY) cs)"
      using "1.IH" [OF True batch_def refl rs'_def tr'_def len] .
    have tk: "take (i + CONCURRENCY) rs' = take i results @ map (kwh_or_null e page) batch"
    proof (cases "i + CONCURRENCY \<le> length cs")
      case True
      then have "length batch = CONCURRENCY" by (simp add: batch_def)
      then show ?thesis using lb by (simp add: rs)
    next
      case False
      then have "i + length batch = length cs" using True by (simp add: batch_def)
      then show ?thesis using False "1.prems" by (simp add: rs)
    qed
    have "batch @ drop (i + CONCURRENCY) cs = drop i cs"
      by (simp add: batch_def take_add [symmetric] add.commute drop_drop [symmetric] del: drop_drop)
    then have "map (kwh_or_null e page) batch @ map (kwh_or_null e page) (drop (i + CONCURRENCY) cs)
                 = map (kwh_or_null e page) (drop i cs)"
      by (metis map_append)
    then show ?thesis by (simp add: step ih tk)
  qed
qed

lemma batches_step:
  "i < length cs \<Longrightarrow>
   batches (drop i cs) = take CONCURRENCY (drop i cs) # batches (drop (i + CONCURRENCY) cs)"
  by (subst batches.simps) (simp add: add.commute)

lemma batches_done: "length cs \<le> i \<Longrightarrow> batches (drop i cs) = []"
  by (subst batches.simps) simp

lemma kwh_loop_trace:
  "snd (kwh_loop e page order cs i results trace)
     = trace @ concat (map (batch_events order) (batches (drop i cs)))"
proof (induction e page order cs i results trace rule: kwh_loop.induct)
  case (1 e page order cs i results trace)
  show ?case
  proof (cases "i < length cs")
    case False
    then show ?thesis by (simp add: kwh_loop.simps [of _ _ _ cs i] batches.simps [of "[]"])
  next
    case True
    define batch where "batch = take CONCURRENCY (drop i cs)"
    define rs' where
      "rs' = fold (\<lambda>(j, v) rs. rs[i + j := v]) (enumerate 0 (map (kwh_or_null e page) batch)) results"
    define tr' where "tr' = trace @ map (\<lambda>c. Start (circuit_id c)) batch
                            @ map (\<lambda>c. Settled (circuit_id c)) (order batch)"
    have step: "kwh_loop e page order cs i results trace
                  = kwh_loop e page order cs (i + CONCURRENCY) rs' tr'"
      using True
      by (subst kwh_loop.simps) (simp add: Let_def batch_def rs'_def tr'_def)
    have ih: "snd (kwh_loop e page order cs (i + CONCURRENCY) rs' tr')
                = tr' @ concat (map (batch_events order) (batches (drop (i + CONCURRENCY) cs)))"
      using "1.IH" [OF True batch_def refl rs'_def tr'_def] .
    show ?thesis
      unfolding step ih
      by (simp add: batches_step [OF True] tr'_def batch_def
            batch_events_def [of order "take CONCURRENCY (drop i cs)"])
  qed
qed

lemma outstanding_append: "outstanding (a @ b) = outstanding a + outstanding b"
  by (induction a rule: outstanding.induct) simp_all

lemma outstanding_starts: "outstanding (map (\<lambda>c. Start (f c)) xs) = int (length xs)"
  by (induction xs) simp_all

lemma outstanding_settles: "outstanding (map (\<lambda>c. Settled (f c)) xs) = - int (length xs)"
  by (induction xs) simp_all

lemma batch_events_balanced:
  "length (order b) = length b \<Longrightarrow> outstanding (batch_events order b) = 0"
  by (simp add: batch_events_def outstanding_append outstanding_starts outstanding_settles)

lemma batch_events_prefix:
  assumes "length (order b) = length b"
  shows "0 \<le> outstanding (take n (batch_events order b))
         \<and> outstanding (take n (batch_events order b)) \<le> int (length b)"
proof -
  have "outstanding (take n (batch_events order b))
          = int (min (length b) n) - int (min (length (order b)) (n - length b))"
    by (simp add: batch_events_def outstanding_append take_map outstanding_starts
          outstanding_settles)
  then show ?thesis using assms by (auto simp: min_def)
qed

lemma batches_prefix:
  assumes "\<forall>b. length (order b) = length b" "\<forall>b \<in> set bs. length b \<le> K"
  shows "0 \<le> outstanding (take n (concat (map (batch_events order) bs)))
         \<and> outstanding (take n (concat (map (batch_events order) bs))) \<le> int K
         \<and> outstanding (concat (map (batch_events order) bs)) = 0"
  using assms(2)
proof (induction bs arbitrary: n)
  case Nil
  then show ?case by simp
next
  case (Cons b bs)
  have bal: "outstanding (batch_events order b) = 0"
    using assms(1) by (simp add: batch_events_balanced)
  have pre: "0 \<le> outstanding (take n (batch_events order b))"
            "outstanding (take n (batch_events order b)) \<le> int K"
    using batch_events_prefix [of order b n] assms(1) Cons.prems by auto
  have ih: "0 \<le> outstanding (take m (concat (map (batch_events order) bs)))"
           "outstanding (take m (concat (map (batch_events order) bs))) \<le> int K"
           "outstanding (concat (map (batch_events order) bs)) = 0" for m
    using Cons.IH [of m] Cons.prems by auto
  show ?case
  proof (cases "n \<le> length (batch_events order b)")
    case True
    then show ?thesis using pre bal ih(3) by (simp add: outstanding_append)
  next
    case False
    then show ?thesis using bal ih by (simp add: outstanding_append)
  qed
qed

lemma batches_small: "b \<in> set (batches cs) \<Longrightarrow> length b \<le> CONCURRENCY"
proof (induction cs arbitrary: b rule: batches.induct)
  case (1 cs)
  show ?case
  proof (cases "cs = []")
    case True
    with "1.prems" show ?thesis by (simp add: batches.simps [of "[]"])
  next
    case False
    with "1.prems" have "b = take CONCURRENCY cs \<or> b \<in> set (batches (drop CONCURRENCY cs))"
      by (subst (asm) batches.simps) simp
    then show ?thesis using "1.IH" [OF False] by auto
  qed
qed

lemma concat_batches: "concat (batches cs) = cs"
proof (induction cs rule: batches.induct)
  case (1 cs)
  show ?case
  proof (cases "cs = []")
    case True
    then show ?thesis by (simp add: batches.simps [of "[]"])
  next
    case False
    then show ?thesis using "1.IH" [OF False] by (subst batches.simps) simp
  qed
qed


text \<open>
  Claim C5.  Whatever the order in which the requests of a batch settle, the bulk fetch
  returns one result per circuit, in input order: the scraped value, or \<open>null\<close> for a
  circuit whose fetch is rejected.  Its requests go out in the successive batches of at
  most ten circuits, every request of a batch settling before the next batch starts, so at
  every instant between zero and ten requests are outstanding, and none at the end.
\<close>

theorem bulk_kwh_batches:
  "(\<forall>b. length (order b) = length b) \<longrightarrow>
     fst (getAllCircuitKwh e page order cs) = map (kwh_or_null e page) cs \<and>
     length (fst (getAllCircuitKwh e page order cs)) = length cs \<and>
     (\<forall>k < length cs.
        (\<forall>err. getCircuitKwh e page (circuit_id (cs ! k)) = Inl err \<longrightarrow>
           fst (getAllCircuitKwh e page order cs) ! k = JNull) \<and>
        (\<forall>v. getCircuitKwh e page (circuit_id (cs ! k)) = Inr v \<longrightarrow>
           fst (getAllCircuitKwh e page order cs) ! k = v)) \<and>
     snd (getAllCircuitKwh e page order cs)
       = concat (map (batch_events order) (batches cs)) \<and>
     concat (batches cs) = cs \<and>
     (\<forall>b \<in> set (batches cs). length b \<le> 10) \<and>
     (\<forall>n. 0 \<le> outstanding (take n (snd (getAllCircuitKwh e page order cs))) \<and>
          outstanding (take n (snd (getAllCircuitKwh e page order cs))) \<le> 10) \<and>
     outstanding (snd (getAllCircuitKwh e page order cs)) = 0"
proof
  assume ord: "\<forall>b. length (order b) = length b"
  have res: "fst (getAllCircuitKwh e page order cs) = map (kwh_or_null e page) cs"
    using kwh_loop_results [of "replicate (length cs) JNull" cs e page order 0 "[]"]
    by (simp add: getAllCircuitKwh_def)
  have tr: "snd (getAllCircuitKwh e page order cs)
              = concat (map (batch_events order) (batches cs))"
    using kwh_loop_trace [of e page order cs 0 "replicate (length cs) JNull" "[]"]
    by (simp add: getAllCircuitKwh_def)
  have small: "\<forall>b \<in> set (batches cs). length b \<le> 10"
    using batches_small [of _ cs] by (auto simp: CONCURRENCY_def)
  have bound: "0 \<le> outstanding (take n (concat (map (batch_events order) (batches cs))))
         \<and> outstanding (take n (concat (map (batch_events order) (batches cs)))) \<le> 10
         \<and> outstanding (concat (map (batch_events order) (batches cs))) = 0" for n
    using batches_prefix [OF ord small, of n] by simp
  have each: "(\<forall>err. getCircuitKwh e page (circuit_id (cs ! k)) = Inl err \<longrightarrow>
                 map (kwh_or_null e page) cs ! k = JNull) \<and>
              (\<forall>v. getCircuitKwh e page (circuit_id (cs ! k)) = Inr v \<longrightarrow>
                 map (kwh_or_null e page) cs ! k = v)" if "k < length cs" for k
    using that by (simp add: kwh_or_null_def)
  show "fst (getAllCircuitKwh e page order cs) = map (kwh_or_null e page) cs \<and>
     length (fst (getAllCircuitKwh e page order cs)) = length cs \<and>
     (\<forall>k < length cs.
        (\<forall>err. getCircuitKwh e page (circuit_id (cs ! k)) = Inl err \<longrightarrow>
           fst (getAllCircuitKwh e page order cs) ! k = JNull) \<and>
        (\<forall>v. getCircuitKwh e page (circuit_id (cs ! k)) = Inr v \<longrightarrow>
           fst (getAllCircuitKwh e page order cs) ! k = v)) \<and>
     snd (getAllCircuitKwh e page order cs)
       = concat (map (batch_events order) (batches cs)) \<and>
     concat (batches cs) = cs \<and>
     (\<forall>b \<in> set (batches cs). length b \<le> 10) \<and>
     (\<forall>n. 0 \<le> outstanding (take n (snd (getAllCircuitKwh e page order cs))) \<and>
          outstanding (take n (snd (getAllCircuitKwh e page order cs))) \<le> 10) \<and>
     outstanding (snd (getAllCircuitKwh e page order cs)) = 0"
    unfolding res tr using each small bound concat_batches [of cs] by simp
qed

lemma sample_bulk_run:
  "fst (getAllCircuitKwh env_always_401 sample_kwh_pages rev sample_circuits25)
     = [JNum (Fin 1), JNum (Fin 2), JNull, JNum (Fin 4), JNum (Fin 5), JNull,
        JNum (Fin 7), JNum (Fin 8), JNull, JNum (Fin 10), JNum (Fin 11), JNull,
        JNum (Fin 13), JNum (Fin 14), JNull, JNum (Fin 16), JNum (Fin 17), JNull,
        JNum (Fin 19), JNum (Fin 20), JNull, JNum (Fin 22), JNum (Fin 23), JNull,
        JNum (Fin 25)]"
  "map length (batches sample_circuits25) = [10, 10, 5]"
  "map (\<lambda>n. outstanding (take n (snd (getAllCircuitKwh env_always_401 sample_kwh_pages rev
          sample_circuits25)))) [0, 5, 10, 15, 20, 30, 40, 45, 50] = [0, 5, 10, 5, 0, 10, 0, 5, 0]"
  "length sample_circuits25 = 25"
  by code_simp+

theorem bulk_kwh_batches_witness:
  "(\<forall>b :: circuit list. length (rev b) = length b) \<and>
   length sample_circuits25 = 25 \<and>
   fst (getAllCircuitKwh env_always_401 sample_kwh_pages rev sample_circuits25)
     = [JNum (Fin 1), JNum (Fin 2), JNull, JNum (Fin 4), JNum (Fin 5), JNull,
        JNum (Fin 7), JNum (Fin 8), JNull, JNum (Fin 10), JNum (Fin 11), JNull,
        JNum (Fin 13), JNum (Fin 14), JNull, JNum (Fin 16), JNum (Fin 17), JNull,
        JNum (Fin 19), JNum (Fin 20), JNull, JNum (Fin 22), JNum (Fin 23), JNull,
        JNum (Fin 25)] \<and>
   map length (batches sample_circuits25) = [10, 10, 5] \<and>
   map (\<lambda>n. outstanding (take n (snd (getAllCircuitKwh env_always_401 sample_kwh_pages rev
          sample_circuits25)))) [0, 5, 10, 15, 20, 30, 40, 45, 50] = [0, 5, 10, 5, 0, 10, 0, 5, 0] \<and>
   outstanding (take 11 (snd (getAllCircuitKwh env_always_401 sample_kwh_pages rev
     sample_circuits25))) \<le> 10"
proof -
  have ord: "\<forall>b :: circuit list. length (rev b) = length b" by simp
  have eleven: "outstanding (take 11 (snd (getAllCircuitKwh env_always_401 sample_kwh_pages rev
     sample_circuits25))) \<le> 10"
    using bulk_kwh_batches [of rev env_always_401 sample_kwh_pages sample_circuits25] ord
    by blast
  show ?thesis
    using ord eleven sample_bulk_run by blast
qed

section \<open>Properties of the circuit-list parser\<close>

lemma circuits_loop_step:
  "circuits_loop e (s # rest) =
     (case attempt e s of Some cs \<Rightarrow> cs | None \<Rightarrow> circuits_loop e rest)"
  by (simp add: attempt_def candidate_def argument_text_def Let_def
        split: option.splits sum.splits)

lemma circuits_loop_first:
  "circuits_loop e ss =
     (case List.find (\<lambda>s. attempt e s \<noteq> None) ss of
        None \<Rightarrow> []
      | Some s \<Rightarrow> (case attempt e s of None \<Rightarrow> [] | Some cs \<Rightarrow> cs))"
proof (induction ss)
  case Nil
  show ?case by simp
next
  case (Cons s rest)
  show ?case
  proof (cases "attempt e s")
    case None
    then show ?thesis using Cons by (simp only: circuits_loop_step find.simps) simp
  next
    case (Some cs)
    then show ?thesis by (simp only: circuits_loop_step find.simps) simp
  qed
qed

lemma get_prop_field:
  "get_prop c k = (if c = JNull \<or> c = JUndefined then Inl TypeError else Inr (field c k))"
  by (cases c) (simp_all add: field_def)

lemma filter_enabled_eq:
  "filter_enabled xs =
     (if \<forall>c \<in> set xs. c \<noteq> JNull \<and> c \<noteq> JUndefined
      then Inr (filter (\<lambda>c. field c ''strBtnType'' = JStr ''1'') xs)
      else Inl TypeError)"
  by (induction xs) (simp_all add: get_prop_field)

lemma map_circuits_eq:
  "map_circuits e ks =
     (if \<forall>c \<in> set ks. printable (field c ''strId'')
      then Inr (map (circuit_record e) ks)
      else Inl TypeError)"
  by (induction ks) (simp_all add: circuit_of_def to_String_def)

lemma circuits_of_eq:
  "circuits_of e data = Inr cs \<longleftrightarrow>
     data \<noteq> JNull \<and> data \<noteq> JUndefined \<and>
     (\<exists>xs. (field data ''arrayCircuitNameList'' = JArr xs
              \<or> (\<not> truthy (field data ''arrayCircuitNameList'') \<and> xs = [])) \<and>
           (\<forall>c \<in> set xs. c \<noteq> JNull \<and> c \<noteq> JUndefined) \<and>
           (\<forall>c \<in> set (filter (\<lambda>c. field c ''strBtnType'' = JStr ''1'') xs).
              printable (field c ''strId'')) \<and>
           cs = map (circuit_record e) (filter (\<lambda>c. field c ''strBtnType'' = JStr ''1'') xs))"
  (is "?l \<longleftrightarrow> ?r")
proof (cases "data = JNull \<or> data = JUndefined")
  case True
  then show ?thesis by (auto simp: circuits_of_def)
next
  case False
  define v where "v = field data ''arrayCircuitNameList''"
  define ys where "ys = (if truthy v then v else JArr [])"
  have gp: "get_prop data ''arrayCircuitNameList'' = Inr v"
    using False by (simp add: get_prop_field v_def)
  have run: "circuits_of e data =
     (case ys of
        JArr xs \<Rightarrow>
          (case filter_enabled xs of Inl err \<Rightarrow> Inl err | Inr ks \<Rightarrow> map_circuits e ks)
      | _ \<Rightarrow> Inl TypeError)"
    by (simp add: circuits_of_def gp ys_def)
  have shape: "(v = JArr xs \<or> (\<not> truthy v \<and> xs = [])) \<longleftrightarrow> ys = JArr xs" for xs
    by (cases v) (auto simp: ys_def)
  show ?thesis
  proof (cases "\<exists>xs. ys = JArr xs")
    case True
    then obtain xs where xs: "ys = JArr xs" by blast
    have one: "(v = JArr zs \<or> (\<not> truthy v \<and> zs = [])) \<longleftrightarrow> zs = xs" for zs
      using shape [of zs] xs by auto
    have "circuits_of e data =
       (if (\<forall>c \<in> set xs. c \<noteq> JNull \<and> c \<noteq> JUndefined)
           \<and> (\<forall>c \<in> set (filter (\<lambda>c. field c ''strBtnType'' = JStr ''1'') xs).
                  printable (field c ''strId''))
        then Inr (map (circuit_record e) (filter (\<lambda>c. field c ''strBtnType'' = JStr ''1'') xs))
        else Inl TypeError)"
      by (simp add: run xs filter_enabled_eq map_circuits_eq)
    then show ?thesis
      using False unfolding v_def [symmetric] one by auto
  next
    case no: False
    then have "circuits_of e data = Inl TypeError"
      by (cases ys) (simp_all add: run)
    then have l: "\<not> ?l" by simp
    have "\<not> (v = JArr zs \<or> (\<not> truthy v \<and> zs = []))" for zs
      using shape [of zs] no by blast
    then have "\<not> ?r"
      unfolding v_def [symmetric] by blast
    with l show ?thesis by blast
  qed
qed

lemma attempt_eq:
  "attempt e s = Some cs \<longleftrightarrow>
     candidate s \<and> (\<exists>data. jsonParse e (argument_text s) = Some data \<and> circuits_of e data = Inr cs)"
  by (auto simp: attempt_def split: option.splits sum.splits)

lemma sample_scripts:
  "scripts_of html_two_calls = [script_two_calls]"
  "scripts_of html_null_first = [script_null, script_single_call]"
  by code_simp+

lemma sample_arguments:
  "argument_text script_two_calls = sample_literal @ ''); go(''"
  "spec_balanced_argument script_two_calls = Some sample_literal"
  "argument_text script_null = ''null''"
  "argument_text script_single_call = sample_literal"
  by code_simp+

lemma sample_parses:
  "jsonParse sample_json_env sample_literal = Some sample_data"
  "jsonParse sample_json_env (sample_literal @ ''); go('') = None"
  "jsonParse sample_json_env ''null'' = Some JNull"
  by code_simp+

lemma sample_circuits:
  "circuits_of sample_json_env sample_data = Inr [sample_circuit]"
  "circuits_of sample_json_env JNull = Inl TypeError"
  by code_simp+

lemma sample_results:
  "parse_circuits sample_json_env html_two_calls = []"
  "parse_circuits sample_json_env html_null_first = [sample_circuit]"
  by code_simp+

lemma sample_attempts:
  "candidate script_null"
  "attempt sample_json_env script_two_calls = None"
  "includes_str script_single_call ''arrayCircuitNameList''"
  "attempt sample_json_env script_null = None"
  "attempt sample_json_env script_single_call = Some [sample_circuit]"
  by code_simp+

text \<open>
  Claim C6 fails at the two sample pages.  In the first, the only block holds the call with
  the list and a second call after it: the balanced argument of the first parenthesis is
  the JSON text and parses to one enabled circuit, yet the code hands the text up to the
  last closing parenthesis to the parser, which rejects it, and returns the empty list.
  In the second, the first block with the marker parses (to \<open>null\<close>), reading the list
  from it throws, and the circuits returned are those of the second block.
\<close>

theorem circuits_parse_counterexample:
  "scripts_of html_two_calls = [script_two_calls] \<and>
   spec_balanced_argument script_two_calls = Some sample_literal \<and>
   jsonParse sample_json_env sample_literal = Some sample_data \<and>
   circuits_of sample_json_env sample_data = Inr [sample_circuit] \<and>
   argument_text script_two_calls = sample_literal @ ''); go('' \<and>
   parse_circuits sample_json_env html_two_calls = [] \<and>
   scripts_of html_null_first
     = [script_null, script_single_call] \<and>
   candidate script_null \<and>
   jsonParse sample_json_env (argument_text script_null) = Some JNull \<and>
   circuits_of sample_json_env JNull = Inl TypeError \<and>
   parse_circuits sample_json_env html_null_first = [sample_circuit]"
  by (simp add: sample_scripts sample_arguments sample_parses sample_circuits sample_results
        sample_attempts)

text \<open>
  Claim C6 as amended.  The parser goes through the script blocks in document order and
  returns the outcome of the first try that succeeds, the empty list when none does; it
  never throws.  A try on a block succeeds with the circuits \<open>cs\<close> exactly when the block
  contains the marker and has an opening parenthesis before its last closing one, the
  trimmed text between the first opening and the last closing parenthesis parses as JSON to
  a value other than \<open>null\<close>, the list of that value is an array, or is absent or falsy
  and then counts as empty, no element of the list is \<open>null\<close>, the id of every element
  with button type \<open>'1'\<close> prints, and \<open>cs\<close> is those elements, in order, each as
  \<open>{id, name}\<close>: the id printed, the name the circuit's own when truthy and
  \<open>Circuit\<close> with the id otherwise.  An element with another button type is dropped,
  whatever its fields.
\<close>

theorem circuits_first_success:
  "parse_circuits e html =
     (case List.find (\<lambda>s. attempt e s \<noteq> None) (scripts_of html) of
        None \<Rightarrow> []
      | Some s \<Rightarrow> (case attempt e s of None \<Rightarrow> [] | Some cs \<Rightarrow> cs)) \<and>
   (\<forall>s cs. attempt e s = Some cs \<longleftrightarrow>
      includes_str s ''arrayCircuitNameList'' \<and>
      0 \<le> indexOf s CHR ''('' \<and> indexOf s CHR ''('' < lastIndexOf s CHR '')'' \<and>
      (\<exists>data xs.
         jsonParse e (trim (slice s (indexOf s CHR ''('' + 1) (lastIndexOf s CHR '')'')))
           = Some data \<and>
         data \<noteq> JNull \<and> data \<noteq> JUndefined \<and>
         (field data ''arrayCircuitNameList'' = JArr xs
          \<or> (\<not> truthy (field data ''arrayCircuitNameList'') \<and> xs = [])) \<and>
         (\<forall>c \<in> set xs. c \<noteq> JNull \<and> c \<noteq> JUndefined) \<and>
         (\<forall>c \<in> set (filter (\<lambda>c. field c ''strBtnType'' = JStr ''1'') xs).
            printable (field c ''strId'')) \<and>
         cs = map (\<lambda>c. \<lparr>circuit_id = js_String e (field c ''strId''),
                         circuit_name =
                           (if truthy (field c ''strCircuit'') then field c ''strCircuit''
                            else JStr (''Circuit '' @ js_String e (field c ''strId'')))\<rparr>)
                (filter (\<lambda>c. field c ''strBtnType'' = JStr ''1'') xs)))"
proof (intro conjI allI)
  show "parse_circuits e html =
     (case List.find (\<lambda>s. attempt e s \<noteq> None) (scripts_of html) of
        None \<Rightarrow> []
      | Some s \<Rightarrow> (case attempt e s of None \<Rightarrow> [] | Some cs \<Rightarrow> cs))"
    by (simp add: parse_circuits_def circuits_loop_first)
next
  fix s cs
  have rec: "circuit_record e =
     (\<lambda>c. \<lparr>circuit_id = js_String e (field c ''strId''),
            circuit_name =
              (if truthy (field c ''strCircuit'') then field c ''strCircuit''
               else JStr (''Circuit '' @ js_String e (field c ''strId'')))\<rparr>)"
    by (rule ext) (simp add: circuit_record_def)
  show "attempt e s = Some cs \<longleftrightarrow>
      includes_str s ''arrayCircuitNameList'' \<and>
      0 \<le> indexOf s CHR ''('' \<and> indexOf s CHR ''('' < lastIndexOf s CHR '')'' \<and>
      (\<exists>data xs.
         jsonParse e (trim (slice s (indexOf s CHR ''('' + 1) (lastIndexOf s CHR '')'')))
           = Some data \<and>
         data \<noteq> JNull \<and> data \<noteq> JUndefined \<and>
         (field data ''arrayCircuitNameList'' = JArr xs
          \<or> (\<not> truthy (field data ''arrayCircuitNameList'') \<and> xs = [])) \<and>
         (\<forall>c \<in> set xs. c \<noteq> JNull \<and> c \<noteq> JUndefined) \<and>
         (\<forall>c \<in> set (filter (\<lambda>c. field c ''strBtnType'' = JStr ''1'') xs).
            printable (field c ''strId'')) \<and>
         cs = map (\<lambda>c. \<lparr>circuit_id = js_String e (field c ''strId''),
                         circuit_name =
                           (if truthy (field c ''strCircuit'') then field c ''strCircuit''
                            else JStr (''Circuit '' @ js_String e (field c ''strId'')))\<rparr>)
                (filter (\<lambda>c. field c ''strBtnType'' = JStr ''1'') xs))"
    unfolding attempt_eq circuits_of_eq rec [symmetric] candidate_def argument_text_def
    by blast
qed

theorem circuits_first_success_witness:
  "attempt sample_json_env script_mixed = Some mixed_circuits \<and>
   includes_str script_mixed ''arrayCircuitNameList'' \<and>
   jsonParse sample_json_env
     (trim (slice script_mixed (indexOf script_mixed CHR ''('' + 1)
              (lastIndexOf script_mixed CHR '')''))) = Some mixed_data \<and>
   List.find (\<lambda>s. attempt sample_json_env s \<noteq> None) (scripts_of html_mixed)
     = Some script_mixed \<and>
   parse_circuits sample_json_env html_mixed = mixed_circuits \<and>
   parse_circuits sample_json_env html_two_calls = []"
proof -
  have m: "includes_str script_mixed ''arrayCircuitNameList''"
    "0 \<le> indexOf script_mixed CHR ''(''"
    "indexOf script_mixed CHR ''('' < lastIndexOf script_mixed CHR '')''"
    "jsonParse sample_json_env
       (trim (slice script_mixed (indexOf script_mixed CHR ''('' + 1)
                (lastIndexOf script_mixed CHR '')''))) = Some mixed_data"
    "mixed_data \<noteq> JNull" "mixed_data \<noteq> JUndefined"
    by code_simp+
  define xs where "xs = [JObj [(''strId'', JStr ''1''), (''strBtnType'', JStr ''0''),
                               (''strCircuit'', JStr ''Off'')],
                         JObj [(''strId'', JNum (Fin 7)), (''strBtnType'', JStr ''1'')],
                         JObj [(''strId'', JStr ''3''), (''strBtnType'', JStr ''1''),
                               (''strCircuit'', JStr ''Kitchen'')]]"
  have l: "field mixed_data ''arrayCircuitNameList'' = JArr xs"
    "\<forall>c \<in> set xs. c \<noteq> JNull \<and> c \<noteq> JUndefined"
    "\<forall>c \<in> set (filter (\<lambda>c. field c ''strBtnType'' = JStr ''1'') xs).
        printable (field c ''strId'')"
    "mixed_circuits =
       map (\<lambda>c. \<lparr>circuit_id = js_String sample_json_env (field c ''strId''),
                   circuit_name =
                     (if truthy (field c ''strCircuit'') then field c ''strCircuit''
                      else JStr (''Circuit '' @ js_String sample_json_env (field c ''strId'')))\<rparr>)
           (filter (\<lambda>c. field c ''strBtnType'' = JStr ''1'') xs)"
    unfolding xs_def by code_simp+
  have a: "attempt sample_json_env script_mixed = Some mixed_circuits"
    using circuits_first_success [of sample_json_env html_mixed] m l by blast
  have f: "scripts_of html_mixed = [''var x = 1;'', script_null, script_mixed]"
    "attempt sample_json_env ''var x = 1;'' = None"
    by code_simp+
  have g: "List.find (\<lambda>s. attempt sample_json_env s \<noteq> None) (scripts_of html_mixed)
             = Some script_mixed"
    by (simp add: f a sample_attempts)
  have "parse_circuits sample_json_env html_mixed =
     (case List.find (\<lambda>s. attempt sample_json_env s \<noteq> None) (scripts_of html_mixed) of
        None \<Rightarrow> []
      | Some s \<Rightarrow> (case attempt sample_json_env s of None \<Rightarrow> [] | Some cs \<Rightarrow> cs))"
    using circuits_first_success [of sample_json_env html_mixed] by (rule conjunct1)
  then have p: "parse_circuits sample_json_env html_mixed = mixed_circuits"
    by (simp only: g a option.case)
  show ?thesis
    using m a g p sample_results by simp
qed

section \<open>Properties of the floor-heater level\<close>

lemma nat_to_dec_digit: "n < 10 \<Longrightarrow> nat_to_dec n = [''0123456789'' ! n]"
  by (subst nat_to_dec.simps) simp

lemma int_to_dec_digit: "0 \<le> i \<Longrightarrow> i < 10 \<Longrightarrow> int_to_dec i = [''0123456789'' ! nat i]"
  by (simp add: int_to_dec_def nat_to_dec_digit)

lemma setFHLevel_lvl_int:
  "setFHLevel_lvl e (JNum (Fin (of_int n))) = Fin (of_int (max 1 (min 9 n)))"
proof -
  have "math_min (Fin 9) (Fin (of_int n)) = Fin (of_int (min 9 n))"
    by (simp add: min_def)
  moreover have "math_max (Fin 1) (Fin (of_int (min 9 n))) = Fin (of_int (max 1 (min 9 n)))"
    by (simp add: max_def)
  ultimately show ?thesis
    by (simp add: setFHLevel_lvl_def js_Number_def)
qed

lemma number_to_string_digit:
  assumes "0 \<le> k" "k < 10"
  shows "number_to_string e (Fin (of_int k)) = [''0123456789'' ! nat k]"
proof -
  have "\<bar>(of_int k :: rat)\<bar> \<le> 9007199254740992" using assms by linarith
  then show ?thesis
    using assms by (simp add: number_to_string_def int_to_dec_digit)
qed

lemma setFHLevel_templevel_int:
  "setFHLevel_templevel e (JNum (Fin (of_int n)))
     = ''0x3'' @ [''123456789'' ! nat (max 1 (min 9 n) - 1)]"
proof -
  define k where "k = max 1 (min 9 n)"
  have rng: "1 \<le> k" "k \<le> 9" by (simp_all add: k_def)
  then have "nat k \<in> {1, 2, 3, 4, 5, 6, 7, 8, 9}" by auto
  then have "[''0123456789'' ! nat k] = [''123456789'' ! nat (k - 1)]"
    by (auto simp: nat_diff_distrib)
  moreover have "number_to_string e (Fin (of_int k)) = [''0123456789'' ! nat k]"
    using rng by (intro number_to_string_digit) auto
  ultimately show ?thesis
    by (simp add: setFHLevel_templevel_def setFHLevel_lvl_int k_def)
qed

lemma devicePost_first:
  "\<exists>rest. sent (snd (devicePost e path body w)) = sent w @ device_request path body # rest"
  by (simp add: devicePost_cases Let_def split: sum.splits)

lemma post_params_first:
  "\<exists>rest. sent (snd (post_params e path params w))
            = sent w @ device_request path (encodeData e params) # rest"
proof -
  have "sent (snd (post_params e path params w))
          = sent (snd (devicePost e path (encodeData e params) w))"
    by (simp add: post_params_def split: prod.splits sum.splits)
  then show ?thesis
    using devicePost_first [of e path "encodeData e params" w] by simp
qed

lemma sample_level_run:
  "map req_url (sent (snd (setFHLevel env_form (JStr ''n1'') (JStr ''0x027b01'') (JStr ''0x30'')
                             (JNum (Fin 10)) (Some ''32140'') world0)))
     = [''http://192.168.0.216/action/devices/device/32b/change'',
        ''http://192.168.0.216/action/devices/device/32b/change'']"
  "map req_body (sent (snd (setFHLevel env_form (JStr ''n1'') (JStr ''0x027b01'') (JStr ''0x30'')
                              (JNum (Fin 10)) (Some ''32140'') world0)))
     = [Some ''state=0x30&templevel=0x39&token=32140'',
        Some ''state=0x30&templevel=0x39&token=32140'']"
  "encodeData env_form
     (JObj [(''nodeId'', JStr ''n1''), (''eoj'', JStr ''0x027b01''), (''type'', JStr ''0x34''),
            (''state'', JStr ''0x30''), (''templevel'', JStr ''0x39''),
            (''token'', JStr ''32140'')])
     = ''state=0x30&templevel=0x39&token=32140''"
  "sent world0 = []"
  by code_simp+

text \<open>
  Claim C7.  For every integer level the value sent is the level clamped into 1..9, and
  its code is \<open>0x3\<close> followed by the digit of the clamped level; a level in range is
  kept; the levels 0, 1, 5, 9 and 10 give the codes of 1, 1, 5, 9 and 9.  The setter
  itself, at an integer level, resolves the token and then posts to the change path the
  parameters \<open>nodeId\<close>, \<open>eoj\<close>, type \<open>0x34\<close>, the current state, that code as
  \<open>templevel\<close>, and the token; what it returns is what the post returns, so a level out
  of range does exactly what the clamped level does and adds no error.  With a token
  handed in, the first request it sends is the post of those parameters.
\<close>

theorem setFHLevel_clamp_encode:
  "setFHLevel_lvl e (JNum (Fin (of_int n))) = Fin (of_int (max 1 (min 9 n))) \<and>
   1 \<le> max 1 (min 9 n) \<and> max 1 (min 9 n) \<le> 9 \<and>
   (1 \<le> n \<and> n \<le> 9 \<longrightarrow> max 1 (min 9 n) = n) \<and>
   setFHLevel_templevel e (JNum (Fin (of_int n)))
     = ''0x3'' @ [''123456789'' ! nat (max 1 (min 9 n) - 1)] \<and>
   map (\<lambda>i. setFHLevel_templevel e (JNum (Fin (of_int i)))) [0, 1, 5, 9, 10]
     = [''0x31'', ''0x31'', ''0x35'', ''0x39'', ''0x39''] \<and>
   setFHLevel e nodeId eoj currentState (JNum (Fin (of_int n))) tk w
     = setFHLevel e nodeId eoj currentState (JNum (Fin (of_int (max 1 (min 9 n))))) tk w \<and>
   setFHLevel e nodeId eoj currentState (JNum (Fin (of_int n))) tk w
     = (case resolve_token e tk w of
          (Inl err, w') \<Rightarrow> (Inl err, w')
        | (Inr tok, w') \<Rightarrow>
            (case devicePost e ''/action/devices/device/32b/change''
                    (encodeData e
                       (JObj [(''nodeId'', nodeId), (''eoj'', eoj), (''type'', JStr ''0x34''),
                              (''state'', currentState),
                              (''templevel'',
                               JStr (''0x3'' @ [''123456789'' ! nat (max 1 (min 9 n) - 1)])),
                              (''token'', JStr tok)])) w' of
               (Inl err, w'') \<Rightarrow> (Inl err, w'')
             | (Inr r, w'') \<Rightarrow> (control_result e r, w''))) \<and>
   (t \<noteq> [] \<longrightarrow>
      (\<exists>rest. sent (snd (setFHLevel e nodeId eoj currentState (JNum (Fin (of_int n)))
                            (Some t) w))
         = sent w
           @ device_request ''/action/devices/device/32b/change''
               (encodeData e
                  (JObj [(''nodeId'', nodeId), (''eoj'', eoj), (''type'', JStr ''0x34''),
                         (''state'', currentState),
                         (''templevel'',
                          JStr (''0x3'' @ [''123456789'' ! nat (max 1 (min 9 n) - 1)])),
                         (''token'', JStr t)]))
           # rest))"
proof -
  have idem: "max 1 (min 9 (max 1 (min 9 n))) = max 1 (min 9 n)" by simp
  have same: "setFHLevel_templevel e (JNum (Fin (of_int (max 1 (min 9 n)))))
                = setFHLevel_templevel e (JNum (Fin (of_int n)))"
    by (simp only: setFHLevel_templevel_int idem)
  have run: "setFHLevel e nodeId eoj currentState (JNum (Fin (of_int n))) tk w
     = setFHLevel e nodeId eoj currentState (JNum (Fin (of_int (max 1 (min 9 n))))) tk w"
    by (simp only: setFHLevel_def same)
  have ex: "map (\<lambda>i. setFHLevel_templevel e (JNum (Fin (of_int i)))) [0, 1, 5, 9, 10]
     = [''0x31'', ''0x31'', ''0x35'', ''0x39'', ''0x39'']"
    by (simp add: setFHLevel_templevel_int)
  have body: "setFHLevel e nodeId eoj currentState (JNum (Fin (of_int n))) tk w
     = (case resolve_token e tk w of
          (Inl err, w') \<Rightarrow> (Inl err, w')
        | (Inr tok, w') \<Rightarrow>
            (case devicePost e ''/action/devices/device/32b/change''
                    (encodeData e
                       (JObj [(''nodeId'', nodeId), (''eoj'', eoj), (''type'', JStr ''0x34''),
                              (''state'', currentState),
                              (''templevel'',
                               JStr (''0x3'' @ [''123456789'' ! nat (max 1 (min 9 n) - 1)])),
                              (''token'', JStr tok)])) w' of
               (Inl err, w'') \<Rightarrow> (Inl err, w'')
             | (Inr r, w'') \<Rightarrow> (control_result e r, w'')))"
    by (simp only: setFHLevel_def setFHLevel_templevel_int post_params_def)
  have req: "\<exists>rest. sent (snd (setFHLevel e nodeId eoj currentState (JNum (Fin (of_int n)))
                            (Some t) w))
         = sent w
           @ device_request ''/action/devices/device/32b/change''
               (encodeData e
                  (JObj [(''nodeId'', nodeId), (''eoj'', eoj), (''type'', JStr ''0x34''),
                         (''state'', currentState),
                         (''templevel'',
                          JStr (''0x3'' @ [''123456789'' ! nat (max 1 (min 9 n) - 1)])),
                         (''token'', JStr t)]))
           # rest" if "t \<noteq> []"
  proof -
    have "resolve_token e (Some t) w = (Inr t, w)"
      using that by (simp add: resolve_token_def)
    then have "setFHLevel e nodeId eoj currentState (JNum (Fin (of_int n))) (Some t) w
       = post_params e ''/action/devices/device/32b/change''
           (JObj [(''nodeId'', nodeId), (''eoj'', eoj), (''type'', JStr ''0x34''),
                  (''state'', currentState),
                  (''templevel'',
                   JStr (''0x3'' @ [''123456789'' ! nat (max 1 (min 9 n) - 1)])),
                  (''token'', JStr t)]) w"
      by (simp add: setFHLevel_def setFHLevel_templevel_int)
    then show ?thesis
      by (simp only: post_params_first)
  qed
  show ?thesis
    using setFHLevel_lvl_int [of e n] setFHLevel_templevel_int [of e n] run ex body req
    by simp
qed

theorem setFHLevel_clamp_encode_witness:
  "(1 \<le> (5::int) \<and> (5::int) \<le> 9) \<and> max 1 (min 9 (5::int)) = 5 \<and>
   setFHLevel_lvl env_always_401 (JNum (Fin 0)) = Fin 1 \<and>
   setFHLevel_templevel env_always_401 (JNum (Fin 0)) = ''0x31'' \<and>
   setFHLevel_templevel env_always_401 (JNum (Fin 5)) = ''0x35'' \<and>
   setFHLevel_lvl env_always_401 (JNum (Fin 10)) = Fin 9 \<and>
   setFHLevel_templevel env_always_401 (JNum (Fin 10)) = ''0x39'' \<and>
   ''32140'' \<noteq> [] \<and>
   (\<exists>rest. sent (snd (setFHLevel env_form (JStr ''n1'') (JStr ''0x027b01'') (JStr ''0x30'')
                         (JNum (Fin 10)) (Some ''32140'') world0))
      = device_request ''/action/devices/device/32b/change''
          ''state=0x30&templevel=0x39&token=32140'' # rest) \<and>
   map req_body (sent (snd (setFHLevel env_form (JStr ''n1'') (JStr ''0x027b01'') (JStr ''0x30'')
                              (JNum (Fin 10)) (Some ''32140'') world0)))
     = [Some ''state=0x30&templevel=0x39&token=32140'',
        Some ''state=0x30&templevel=0x39&token=32140'']"
proof -
  have "\<exists>rest. sent (snd (setFHLevel env_form (JStr ''n1'') (JStr ''0x027b01'') (JStr ''0x30'')
                         (JNum (Fin 10)) (Some ''32140'') world0))
      = device_request ''/action/devices/device/32b/change''
          ''state=0x30&templevel=0x39&token=32140'' # rest"
    using setFHLevel_clamp_encode
            [of env_form 10 "JStr ''n1''" "JStr ''0x027b01''" "JStr ''0x30''" None world0
               "''32140''"]
    by (simp add: sample_level_run)
  then show ?thesis
    using setFHLevel_clamp_encode [of env_always_401 5]
          setFHLevel_clamp_encode [of env_always_401 0]
          setFHLevel_clamp_encode [of env_always_401 10]
    by (simp add: sample_level_run)
qed

section \<open>Properties of the cached reads\<close>

lemma rest_get_fresh:
  "now - entry_at c srv \<le> ttl c \<Longrightarrow>
   rest_get c e up now now' srv = (\<lparr>code = 200, content = entry_payload c srv\<rparr>, srv, [])"
  by (cases c) (simp_all add: get_realtime_def get_totals_def get_devices_def)

lemma rest_get_expired_calls:
  "ttl c < now - entry_at c srv \<Longrightarrow> snd (snd (rest_get c e up now now' srv)) = [call_of c]"
  by (cases c)
     (simp_all add: get_realtime_def get_totals_def get_devices_def fetchRealtime_def
        fetchTotals_def fetchDevices_def Let_def split: sum.splits)

lemma frame_realtime:
  "c' \<noteq> Realtime \<Longrightarrow>
   entry_payload c' (srv\<lparr>cache := (cache srv)\<lparr>realtime := v, realtimeAt := t\<rparr>\<rparr>)
     = entry_payload c' srv
   \<and> entry_at c' (srv\<lparr>cache := (cache srv)\<lparr>realtime := v, realtimeAt := t\<rparr>\<rparr>)
     = entry_at c' srv"
  by (cases c') simp_all

lemma frame_totals:
  "c' \<noteq> Totals \<Longrightarrow>
   entry_payload c' (srv\<lparr>cache := (cache srv)\<lparr>totals := v, totalsAt := t\<rparr>\<rparr>)
     = entry_payload c' srv
   \<and> entry_at c' (srv\<lparr>cache := (cache srv)\<lparr>totals := v, totalsAt := t\<rparr>\<rparr>)
     = entry_at c' srv"
  by (cases c') simp_all

lemma frame_devices:
  "c' \<noteq> Devices \<Longrightarrow>
   entry_payload c' (srv\<lparr>cache := (cache srv)\<lparr>devices := v, devicesAt := t\<rparr>\<rparr>)
     = entry_payload c' srv
   \<and> entry_at c' (srv\<lparr>cache := (cache srv)\<lparr>devices := v, devicesAt := t\<rparr>\<rparr>)
     = entry_at c' srv"
  by (cases c') simp_all

lemma rest_get_expired_ok:
  assumes "ttl c < now - entry_at c srv" "fetched c e up srv = Inr data"
  shows "\<exists>srv'. rest_get c e up now now' srv
                  = (\<lparr>code = 200, content = data\<rparr>, srv', [call_of c])
           \<and> entry_payload c srv' = data \<and> entry_at c srv' = now'
           \<and> nicknames srv' = nicknames srv
           \<and> (\<forall>c'. c' \<noteq> c \<longrightarrow> entry_payload c' srv' = entry_payload c' srv
                                \<and> entry_at c' srv' = entry_at c' srv)"
proof (cases c)
  case Realtime
  with assms show ?thesis
    by (auto simp: get_realtime_def fetchRealtime_def frame_realtime split: sum.splits)
next
  case Totals
  with assms show ?thesis
    by (auto simp: get_totals_def fetchTotals_def frame_totals split: sum.splits)
next
  case Devices
  with assms show ?thesis
    by (auto simp: get_devices_def fetchDevices_def Let_def frame_devices split: sum.splits)
qed

lemma rest_get_expired_failed:
  assumes "ttl c < now - entry_at c srv" "fetched c e up srv = Inl err"
  shows "rest_get c e up now now' srv
           = (\<lparr>code = 502, content = CError err\<rparr>, srv, [call_of c])"
  using assms
  by (cases c)
     (simp_all add: get_realtime_def get_totals_def get_devices_def fetchRealtime_def
        fetchTotals_def fetchDevices_def Let_def split: sum.splits)

text \<open>
  Claim C4.  A read of a category whose entry is no older than its TTL answers with the
  cached payload, leaves the server state as it is and calls nothing upstream.  A read past
  the TTL makes exactly one upstream call; when that call returns, its payload (for the
  devices, with the nicknames applied) is the answer and the new cache payload, the
  timestamp is the clock reading taken after the call, and the other entries keep theirs.
\<close>

theorem cached_read_contract:
  "(now - entry_at c srv \<le> ttl c \<longrightarrow>
      rest_get c e up now now' srv
        = (\<lparr>code = 200, content = entry_payload c srv\<rparr>, srv, [])) \<and>
   (ttl c < now - entry_at c srv \<longrightarrow>
      snd (snd (rest_get c e up now now' srv)) = [call_of c]) \<and>
   (ttl c < now - entry_at c srv \<and> fetched c e up srv = Inr data \<longrightarrow>
      (\<exists>srv'. rest_get c e up now now' srv
                 = (\<lparr>code = 200, content = data\<rparr>, srv', [call_of c])
          \<and> entry_payload c srv' = data \<and> entry_at c srv' = now'
          \<and> nicknames srv' = nicknames srv
          \<and> (\<forall>c'. c' \<noteq> c \<longrightarrow> entry_payload c' srv' = entry_payload c' srv
                               \<and> entry_at c' srv' = entry_at c' srv)))"
  using rest_get_fresh [of now c srv e up now'] rest_get_expired_calls [of c now srv e up now']
    rest_get_expired_ok [of c now srv e up data now']
  by blast

theorem cached_read_contract_witness:
  "5999 - entry_at Realtime sample_server \<le> ttl Realtime \<and>
   rest_get Realtime env_always_401 sample_upstream 5999 6000 sample_server
     = (\<lparr>code = 200, content = CJson (JObj [(''gen_kw'', JNum (Fin 1))])\<rparr>, sample_server, []) \<and>
   ttl Realtime < 6001 - entry_at Realtime sample_server \<and>
   fetched Realtime env_always_401 sample_upstream sample_server
     = Inr (CJson (JObj [(''gen_kw'', JNum (Fin 2))])) \<and>
   rest_get Realtime env_always_401 sample_upstream 6001 6050 sample_server
     = (\<lparr>code = 200, content = CJson (JObj [(''gen_kw'', JNum (Fin 2))])\<rparr>,
        sample_server\<lparr>cache := (cache sample_server)
           \<lparr>realtime := JObj [(''gen_kw'', JNum (Fin 2))], realtimeAt := 6050\<rparr>\<rparr>,
        [GetRealtime])"
  using cached_read_contract [of 5999 Realtime sample_server env_always_401 sample_upstream 6000]
    cached_read_contract [of 6001 Realtime sample_server env_always_401 sample_upstream 6050
      "CJson (JObj [(''gen_kw'', JNum (Fin 2))])"]
  by (simp add: sample_server_def sample_upstream_def initial_cache_def TTL_realtime_def
        get_realtime_def fetchRealtime_def)

text \<open>
  Claim C8.  When the TTL has passed and the upstream call is rejected, the caller gets a
  502 with the error, and the whole server state, payload and timestamp of the entry
  included, is what it was; so every later read of the category calls upstream again.
\<close>

theorem failed_refresh_keeps_entry:
  "ttl c < now - entry_at c srv \<and> fetched c e up srv = Inl err \<longrightarrow>
     rest_get c e up now now' srv = (\<lparr>code = 502, content = CError err\<rparr>, srv, [call_of c]) \<and>
     (\<forall>later stamp up2. now \<le> later \<longrightarrow>
        snd (snd (rest_get c e up2 later stamp srv)) = [call_of c])"
proof (intro impI conjI allI)
  assume a: "ttl c < now - entry_at c srv \<and> fetched c e up srv = Inl err"
  then show "rest_get c e up now now' srv
               = (\<lparr>code = 502, content = CError err\<rparr>, srv, [call_of c])"
    by (simp add: rest_get_expired_failed)
  fix later stamp :: int and up2
  assume "now \<le> later"
  with a have "ttl c < later - entry_at c srv" by simp
  then show "snd (snd (rest_get c e up2 later stamp srv)) = [call_of c]"
    by (rule rest_get_expired_calls)
qed

theorem failed_refresh_keeps_entry_witness:
  "(ttl Totals < 70000 - entry_at Totals sample_server \<and>
    fetched Totals env_always_401 sample_upstream sample_server = Inl NetworkError) \<and>
   rest_get Totals env_always_401 sample_upstream 70000 70040 sample_server
     = (\<lparr>code = 502, content = CError NetworkError\<rparr>, sample_server, [GetTotals]) \<and>
   (70000::int) \<le> 70001 \<and>
   snd (snd (rest_get Totals env_always_401 sample_upstream 70001 70050 sample_server))
     = [GetTotals]"
  using failed_refresh_keeps_entry [of Totals 70000 sample_server env_always_401 sample_upstream
          NetworkError 70040]
  by (simp add: sample_server_def sample_upstream_def initial_cache_def TTL_totals_def)

section \<open>Properties of the nickname overlay\<close>

lemma map_of_obj_set_same: "map_of (obj_set d k v) k = Some v"
  by (induction d k v rule: obj_set.induct) auto

lemma map_of_obj_set_other: "k' \<noteq> k \<Longrightarrow> map_of (obj_set d k v) k' = map_of d k'"
  by (induction d k v rule: obj_set.induct) auto

lemma applyName_keeps_nickname:
  "map_of d ''nickname'' \<noteq> None \<Longrightarrow> map_of (applyName e nn d) ''nickname'' \<noteq> None"
  by (simp add: applyName_def Let_def map_of_obj_set_same split: option.splits)

lemma applyName_keeps_nickname_value:
  "map_of d ''nickname'' = Some y \<Longrightarrow> \<exists>y'. map_of (applyName e nn d) ''nickname'' = Some y'"
  using applyName_keeps_nickname [of d e nn] by auto








section \<open>Properties of the control route\<close>

lemma post_control_unknown:
  assumes "\<not> supported (obj_get body ''action'')"
  shows "post_control e body srv w =
     (case resolve_token e (cached_token srv) w of
        (Inl err, w1) \<Rightarrow> (\<lparr>code = 502, content = CError err\<rparr>, False, w1)
      | (Inr tok, w1) \<Rightarrow> (unknown_action_reply, False, w1))"
proof -
  from assms have
    "obj_get body ''action'' \<noteq> JStr ''toggleAC''" "obj_get body ''action'' \<noteq> JStr ''toggleFH''"
    "obj_get body ''action'' \<noteq> JStr ''toggleBath''"
    "obj_get body ''action'' \<noteq> JStr ''toggleGenerate''"
    "obj_get body ''action'' \<noteq> JStr ''setACMode''" "obj_get body ''action'' \<noteq> JStr ''setACTemp''"
    "obj_get body ''action'' \<noteq> JStr ''setACFan''" "obj_get body ''action'' \<noteq> JStr ''setFHLevel''"
    by (auto simp: supported_def supported_actions_def)
  then show ?thesis
    by (simp add: post_control_def Let_def unknown_action_reply_def split: prod.splits sum.splits)
qed

lemma fetch_token_sent:
  "\<exists>rqs. sent (snd (fetch_token e w)) = sent w @ rqs \<and> rqs \<noteq> [] \<and>
         (\<forall>rq \<in> set rqs. req_url rq = BASE @ ''/page/devices/device/32''
                            \<and> req_method rq = ''GET'')"
proof -
  obtain r w' where d: "digestFetch e ''/page/devices/device/32'' ''GET'' None w = (r, w')"
    by (cases "digestFetch e ''/page/devices/device/32'' ''GET'' None w") auto
  have "sent (snd (fetch_token e w)) = sent w'"
    using d by (cases r) (simp_all add: fetch_token_def Let_def)
  then show ?thesis
    using digestFetch_sent [of e "''/page/devices/device/32''" "''GET''" None w] d by simp
qed

lemma fetch_token_ticks_sent:
  "sent (snd (fetch_token e (w\<lparr>ticks := n\<rparr>))) = sent (snd (fetch_token e w))"
proof -
  obtain r w' where d: "digestFetch e ''/page/devices/device/32'' ''GET'' None w = (r, w')"
    by (cases "digestFetch e ''/page/devices/device/32'' ''GET'' None w") auto
  then have d': "digestFetch e ''/page/devices/device/32'' ''GET'' None (w\<lparr>ticks := n\<rparr>)
                   = (r, w'\<lparr>ticks := n\<rparr>)"
    by (simp add: digestFetch_ticks)
  show ?thesis
    by (cases r) (simp_all add: fetch_token_def d d' Let_def)
qed

lemma resolve_at_hand:
  assumes "token_at_hand e srv w"
  shows "\<exists>t w'. resolve_token e (cached_token srv) w = (Inr t, w') \<and> sent w' = sent w"
  using assms
  by (auto simp: token_at_hand_def resolve_token_def getToken_def
           split: option.splits if_splits)

lemma resolve_not_at_hand:
  assumes "\<not> token_at_hand e srv w"
  shows "\<exists>rqs. sent (snd (resolve_token e (cached_token srv) w)) = sent w @ rqs \<and> rqs \<noteq> [] \<and>
           (\<forall>rq \<in> set rqs. req_url rq = BASE @ ''/page/devices/device/32''
                              \<and> req_method rq = ''GET'')"
proof -
  from assms have
    "resolve_token e (cached_token srv) w = fetch_token e w
     \<or> resolve_token e (cached_token srv) w = fetch_token e (w\<lparr>ticks := Suc (ticks w)\<rparr>)"
    by (auto simp: token_at_hand_def resolve_token_def getToken_def
             split: option.splits if_splits)
  then show ?thesis
    using fetch_token_sent [of e w] by (auto simp: fetch_token_ticks_sent)
qed

lemma fetch_token_outcome:
  "fst (fetch_token e w) =
     (case fst (digestFetch e ''/page/devices/device/32'' ''GET'' None w) of
        Inl err \<Rightarrow> Inl err
      | Inr r \<Rightarrow> Inr (case match_init (body_text r) of Some g \<Rightarrow> g | None \<Rightarrow> ''32140''))"
  "sent (snd (fetch_token e w))
     = sent (snd (digestFetch e ''/page/devices/device/32'' ''GET'' None w))"
  by (simp_all add: fetch_token_def Let_def split: prod.splits sum.splits)

lemma fetch_token_ticks_outcome:
  "fst (fetch_token e (w\<lparr>ticks := n\<rparr>)) = fst (fetch_token e w)"
  by (simp add: fetch_token_outcome digestFetch_ticks)

lemma resolve_not_at_hand_outcome:
  assumes "\<not> token_at_hand e srv w"
  shows "fst (resolve_token e (cached_token srv) w) =
     (case fst (digestFetch e ''/page/devices/device/32'' ''GET'' None w) of
        Inl err \<Rightarrow> Inl err
      | Inr r \<Rightarrow> Inr (case match_init (body_text r) of Some g \<Rightarrow> g | None \<Rightarrow> ''32140''))"
    and "sent (snd (resolve_token e (cached_token srv) w))
           = sent (snd (digestFetch e ''/page/devices/device/32'' ''GET'' None w))"
proof -
  from assms have
    "resolve_token e (cached_token srv) w = fetch_token e w
     \<or> resolve_token e (cached_token srv) w = fetch_token e (w\<lparr>ticks := Suc (ticks w)\<rparr>)"
    by (auto simp: token_at_hand_def resolve_token_def getToken_def
             split: option.splits if_splits)
  then show "fst (resolve_token e (cached_token srv) w) =
     (case fst (digestFetch e ''/page/devices/device/32'' ''GET'' None w) of
        Inl err \<Rightarrow> Inl err
      | Inr r \<Rightarrow> Inr (case match_init (body_text r) of Some g \<Rightarrow> g | None \<Rightarrow> ''32140''))"
    and "sent (snd (resolve_token e (cached_token srv) w))
           = sent (snd (digestFetch e ''/page/devices/device/32'' ''GET'' None w))"
    using fetch_token_outcome [of e w]
    by (auto simp: fetch_token_ticks_outcome fetch_token_ticks_sent)
qed

text \<open>
  Claim C2 fails on a server that has just started: no token is cached, so the handler
  fetches the token page before it looks at the action.  When the appliance cannot be
  reached the request has been sent and the reply is 502, not 400; when the appliance
  answers, two requests have gone out before the 400.
\<close>

theorem unknown_action_counterexample:
  "\<not> supported (obj_get reboot_body ''action'') \<and>
   post_control env_unreachable reboot_body initial_server world0
     = (\<lparr>code = 502, content = CError NetworkError\<rparr>, False,
        world0\<lparr>sent := [first_request ''/page/devices/device/32'' ''GET'' None]\<rparr>) \<and>
   fst (post_control env_always_401 reboot_body initial_server world0) = unknown_action_reply \<and>
   length (sent (snd (snd (post_control env_always_401 reboot_body initial_server world0)))) = 2"
  by code_simp

text \<open>
  Claim C2 as amended.  For an action outside the eight, no control operation runs and no
  refetch is scheduled.  When a token is at hand the reply is 400 and nothing is sent to
  the appliance.  Otherwise the token page is fetched first, and nothing else: what has
  been sent is what that fetch sends, the reply is 400 when the fetch returns a page,
  whatever its status, and 502 with the error of the fetch when the fetch is rejected.
\<close>

theorem unknown_action_rejected:
  "\<not> supported (obj_get body ''action'') \<longrightarrow>
     post_control e body srv w =
       (case resolve_token e (cached_token srv) w of
          (Inl err, w1) \<Rightarrow> (\<lparr>code = 502, content = CError err\<rparr>, False, w1)
        | (Inr tok, w1) \<Rightarrow> (unknown_action_reply, False, w1)) \<and>
     \<not> fst (snd (post_control e body srv w)) \<and>
     (token_at_hand e srv w \<longrightarrow>
        fst (post_control e body srv w) = unknown_action_reply \<and>
        sent (snd (snd (post_control e body srv w))) = sent w) \<and>
     (\<not> token_at_hand e srv w \<longrightarrow>
        (fst (post_control e body srv w) = unknown_action_reply
         \<or> (\<exists>err. fst (post_control e body srv w) = \<lparr>code = 502, content = CError err\<rparr>)) \<and>
        (\<exists>rqs. sent (snd (snd (post_control e body srv w))) = sent w @ rqs \<and> rqs \<noteq> [] \<and>
           (\<forall>rq \<in> set rqs. req_url rq = BASE @ ''/page/devices/device/32''
                              \<and> req_method rq = ''GET'')) \<and>
        fst (post_control e body srv w) =
          (case fst (digestFetch e ''/page/devices/device/32'' ''GET'' None w) of
             Inl err \<Rightarrow> \<lparr>code = 502, content = CError err\<rparr>
           | Inr r \<Rightarrow> unknown_action_reply) \<and>
        sent (snd (snd (post_control e body srv w)))
          = sent (snd (digestFetch e ''/page/devices/device/32'' ''GET'' None w)))"
proof
  assume u: "\<not> supported (obj_get body ''action'')"
  obtain r w1 where r: "resolve_token e (cached_token srv) w = (r, w1)"
    by (cases "resolve_token e (cached_token srv) w") auto
  have pc: "post_control e body srv w =
     (case r of Inl err \<Rightarrow> (\<lparr>code = 502, content = CError err\<rparr>, False, w1)
      | Inr tok \<Rightarrow> (unknown_action_reply, False, w1))"
    using post_control_unknown [OF u, of e srv w] r by (simp split: sum.splits)
  have w1: "snd (snd (post_control e body srv w)) = w1"
    and sch: "\<not> fst (snd (post_control e body srv w))"
    and rep: "fst (post_control e body srv w) = unknown_action_reply
              \<or> (\<exists>err. fst (post_control e body srv w) = \<lparr>code = 502, content = CError err\<rparr>)"
    by (cases r; simp add: pc)+
  have hand: "fst (post_control e body srv w) = unknown_action_reply \<and> sent w1 = sent w"
    if "token_at_hand e srv w"
    using resolve_at_hand [OF that] r by (auto simp: pc)
  have nohand: "\<exists>rqs. sent w1 = sent w @ rqs \<and> rqs \<noteq> [] \<and>
           (\<forall>rq \<in> set rqs. req_url rq = BASE @ ''/page/devices/device/32''
                              \<and> req_method rq = ''GET'')"
    if "\<not> token_at_hand e srv w"
    using resolve_not_at_hand [OF that] r by simp
  have outcome: "fst (post_control e body srv w) =
          (case fst (digestFetch e ''/page/devices/device/32'' ''GET'' None w) of
             Inl err \<Rightarrow> \<lparr>code = 502, content = CError err\<rparr>
           | Inr r \<Rightarrow> unknown_action_reply)"
    and only: "sent w1 = sent (snd (digestFetch e ''/page/devices/device/32'' ''GET'' None w))"
    if "\<not> token_at_hand e srv w"
    using resolve_not_at_hand_outcome [OF that] r
    by (simp_all add: pc split: sum.splits)
  show "post_control e body srv w =
       (case resolve_token e (cached_token srv) w of
          (Inl err, w1) \<Rightarrow> (\<lparr>code = 502, content = CError err\<rparr>, False, w1)
        | (Inr tok, w1) \<Rightarrow> (unknown_action_reply, False, w1)) \<and>
     \<not> fst (snd (post_control e body srv w)) \<and>
     (token_at_hand e srv w \<longrightarrow>
        fst (post_control e body srv w) = unknown_action_reply \<and>
        sent (snd (snd (post_control e body srv w))) = sent w) \<and>
     (\<not> token_at_hand e srv w \<longrightarrow>
        (fst (post_control e body srv w) = unknown_action_reply
         \<or> (\<exists>err. fst (post_control e body srv w) = \<lparr>code = 502, content = CError err\<rparr>)) \<and>
        (\<exists>rqs. sent (snd (snd (post_control e body srv w))) = sent w @ rqs \<and> rqs \<noteq> [] \<and>
           (\<forall>rq \<in> set rqs. req_url rq = BASE @ ''/page/devices/device/32''
                              \<and> req_method rq = ''GET'')) \<and>
        fst (post_control e body srv w) =
          (case fst (digestFetch e ''/page/devices/device/32'' ''GET'' None w) of
             Inl err \<Rightarrow> \<lparr>code = 502, content = CError err\<rparr>
           | Inr r \<Rightarrow> unknown_action_reply) \<and>
        sent (snd (snd (post_control e body srv w)))
          = sent (snd (digestFetch e ''/page/devices/device/32'' ''GET'' None w)))"
    unfolding w1
    using post_control_unknown [OF u, of e srv w] sch rep hand nohand outcome only by blast
qed

lemma sample_control_runs:
  "\<not> supported (obj_get reboot_body ''action'')"
  "token_at_hand env_unreachable named_server world0"
  "\<not> token_at_hand env_unreachable initial_server world0"
  "post_control env_unreachable reboot_body named_server world0
     = (unknown_action_reply, False, world0)"
  "post_control env_unreachable reboot_body initial_server world0
     = (\<lparr>code = 502, content = CError NetworkError\<rparr>, False,
        world0\<lparr>sent := [first_request ''/page/devices/device/32'' ''GET'' None]\<rparr>)"
  by code_simp+

lemma sample_token_fetches:
  "fst (digestFetch env_unreachable ''/page/devices/device/32'' ''GET'' None world0)
     = Inl NetworkError"
  "\<not> token_at_hand env_always_401 initial_server world0"
  "fst (digestFetch env_always_401 ''/page/devices/device/32'' ''GET'' None world0)
     = Inr challenge_401"
  "status challenge_401 = 401"
  by code_simp+

theorem unknown_action_rejected_witness:
  "\<not> supported (obj_get reboot_body ''action'') \<and>
   token_at_hand env_unreachable named_server world0 \<and>
   post_control env_unreachable reboot_body named_server world0
     = (unknown_action_reply, False, world0) \<and>
   \<not> token_at_hand env_unreachable initial_server world0 \<and>
   post_control env_unreachable reboot_body initial_server world0
     = (\<lparr>code = 502, content = CError NetworkError\<rparr>, False,
        world0\<lparr>sent := [first_request ''/page/devices/device/32'' ''GET'' None]\<rparr>) \<and>
   \<not> fst (snd (post_control env_unreachable reboot_body initial_server world0)) \<and>
   fst (digestFetch env_unreachable ''/page/devices/device/32'' ''GET'' None world0)
     = Inl NetworkError \<and>
   fst (post_control env_unreachable reboot_body initial_server world0)
     = \<lparr>code = 502, content = CError NetworkError\<rparr> \<and>
   \<not> token_at_hand env_always_401 initial_server world0 \<and>
   fst (digestFetch env_always_401 ''/page/devices/device/32'' ''GET'' None world0)
     = Inr challenge_401 \<and>
   status challenge_401 = 401 \<and>
   fst (post_control env_always_401 reboot_body initial_server world0) = unknown_action_reply"
proof -
  have "fst (post_control env_unreachable reboot_body initial_server world0) =
          (case fst (digestFetch env_unreachable ''/page/devices/device/32'' ''GET'' None world0) of
             Inl err \<Rightarrow> \<lparr>code = 502, content = CError err\<rparr>
           | Inr r \<Rightarrow> unknown_action_reply)"
    using unknown_action_rejected [of reboot_body env_unreachable initial_server world0]
      sample_control_runs(1,3)
    by blast
  then have a: "fst (post_control env_unreachable reboot_body initial_server world0)
             = \<lparr>code = 502, content = CError NetworkError\<rparr>"
    by (simp only: sample_token_fetches sum.case)
  have "fst (post_control env_always_401 reboot_body initial_server world0) =
          (case fst (digestFetch env_always_401 ''/page/devices/device/32'' ''GET'' None world0) of
             Inl err \<Rightarrow> \<lparr>code = 502, content = CError err\<rparr>
           | Inr r \<Rightarrow> unknown_action_reply)"
    using unknown_action_rejected [of reboot_body env_always_401 initial_server world0]
      sample_control_runs(1) sample_token_fetches(2)
    by blast
  then have b: "fst (post_control env_always_401 reboot_body initial_server world0)
             = unknown_action_reply"
    by (simp only: sample_token_fetches sum.case)
  show ?thesis
    using unknown_action_rejected [of reboot_body env_unreachable initial_server world0]
      sample_control_runs sample_token_fetches a b
    by blast
qed

end
